theory Spec2Isabelle
  imports Complex_Main "HOL-Library.Multiset"
begin

section \<open>Errors and the caller\<close>

text \<open>
  Every handler either returns a value or raises. \<open>HTTPException c d\<close> is the
  framework exception with status code \<open>c\<close> and detail \<open>d\<close>; the other
  constructors are exceptions that no handler catches: \<open>user['sub']\<close> or \<open>d[key]\<close> on
  a dict without that key, \<open>list.index\<close> on an absent element, \<open>[0]\<close> on an empty list,
  a subscript on a value of the wrong type, \<open>requests.post\<close> failing to get an answer,
  \<open>resp.json()\<close> on a body that is not JSON, and the framework's rejection of a query
  parameter outside its declared bounds.
\<close>

datatype error =
    HTTPException nat string
  | KeyError string
  | ValueError string
  | IndexError
  | TypeError string
  | RequestException string
  | JSONDecodeError
  | RequestValidationError string

text \<open>A decoded JSON value; an object keeps its members in the order of the text.\<close>

datatype json =
    JNull
  | JBool bool
  | JNum rat
  | JStr string
  | JArr "json list"
  | JObj "(string \<times> json) list"

text \<open>
  The decoded token payload, as far as the handlers read it: \<open>user['sub']\<close> (raises
  when absent) and \<open>user.get('role')\<close> (\<open>None\<close> when absent).
\<close>

record user =
  sub :: "string option"
  role :: "string option"

section \<open>The datastore\<close>

text \<open>
  The three tables the handlers touch, each a list of rows in the order the store returns
  them. \<open>o_status_timestamps\<close> is a nullable JSON object; \<open>None\<close> is SQL NULL.
  \<open>m_translated_message\<close> holds the value the handler sent for the column, \<open>JNull\<close>
  when it sent \<open>None\<close>.
\<close>

record order_item =
  i_id :: int
  i_order_id :: int
  i_item_name :: string
  i_quantity :: int
  i_price :: rat

record order =
  o_id :: int
  o_buyer_id :: string
  o_seller_id :: string
  o_status :: string
  o_status_timestamps :: "(string \<rightharpoonup> string) option"
  o_created_at :: string

record profile =
  p_id :: string
  p_preferred_language :: "string option"

record message =
  m_id :: int
  m_sender_id :: string
  m_receiver_id :: string
  m_message :: string
  m_translated_message :: json
  m_timestamp :: int

record store =
  profiles :: "profile list"
  messages :: "message list"
  orders :: "order list"
  order_items :: "order_item list"

text \<open>
  \<open>.single().execute().data\<close>: the row of a query that selects by primary key, or
  \<open>None\<close> when there is none (what the handlers test with \<open>if not order\<close>).
\<close>

definition single :: "'a list \<Rightarrow> 'a option" where
  "single rows = (case rows of [] \<Rightarrow> None | r # _ \<Rightarrow> Some r)"

text \<open>\<open>xs.index(x)\<close>: the first position of \<open>x\<close>; \<open>None\<close> stands for the ValueError.\<close>

fun list_index :: "'a list \<Rightarrow> 'a \<Rightarrow> nat option" where
  "list_index [] x = None"
| "list_index (y # ys) x =
     (if y = x then Some 0 else map_option Suc (list_index ys x))"

section \<open>What a call takes from outside\<close>

record translate_request =
  q :: string
  target :: "string option"
  source :: "string option"

record http_response =
  status_code :: int
  body :: "json option"

text \<open>
  The inputs of one request that come from neither the caller nor the tables: the clock
  (\<open>datetime.utcnow().isoformat()\<close>), the time and id the store assigns to an inserted
  message, the \<open>error\<close> attribute of the store's responses (\<open>None\<close> when the
  operation went through; a write that reports an error leaves the table as it was), and
  what \<open>requests.post\<close> does with a request to the translation provider: it raises, or
  it returns a response with a status code and a body (\<open>None\<close> for a body that
  \<open>resp.json()\<close> cannot decode).
\<close>

record env =
  utcnow :: string
  store_now :: int
  store_id :: int
  update_error :: "string option"
  insert_error :: "string option"
  select_error :: "string option"
  http_post :: "translate_request \<Rightarrow> error + http_response"

section \<open>Order handlers of order_tracking.py\<close>

definition tracking_ORDER_STATUSES :: "string list" where
  "tracking_ORDER_STATUSES = [''Placed'', ''Accepted'', ''Out for Delivery'', ''Delivered'']"

text \<open>
  The loop \<open>for item in items_resp.data: items_by_order.setdefault(item['order_id'],
  []).append(item)\<close>.
\<close>

fun group_items :: "(int \<rightharpoonup> order_item list) \<Rightarrow> order_item list \<Rightarrow> (int \<rightharpoonup> order_item list)" where
  "group_items items_by_order [] = items_by_order"
| "group_items items_by_order (item # rest) =
     group_items
       (items_by_order(i_order_id item \<mapsto>
          (case items_by_order (i_order_id item) of None \<Rightarrow> [] | Some l \<Rightarrow> l) @ [item]))
       rest"

definition tracking_get_orders ::
  "store \<Rightarrow> string \<Rightarrow> user \<Rightarrow> error + (order \<times> order_item list) list" where
  "tracking_get_orders db user_id u =
     (case sub u of
        None \<Rightarrow> Inl (KeyError ''sub'')
      | Some s \<Rightarrow>
          if s \<noteq> user_id \<and> role u \<noteq> Some ''seller'' then Inl (HTTPException 403 ''Forbidden'')
          else
            (case (if role u = Some ''buyer''
                   then Inr (filter (\<lambda>row. o_buyer_id row = user_id) (orders db))
                   else if role u = Some ''seller''
                   then Inr (filter (\<lambda>row. o_seller_id row = user_id) (orders db))
                   else Inl (HTTPException 403 ''Invalid role'')) of
               Inl e \<Rightarrow> Inl e
             | Inr data \<Rightarrow>
                 if data = [] then Inr []
                 else
                   (let order_ids = map o_id data;
                        items = filter (\<lambda>i. i_order_id i \<in> set order_ids) (order_items db);
                        items_by_order = group_items Map.empty items
                    in Inr (map (\<lambda>row. (row, case items_by_order (o_id row) of
                                             None \<Rightarrow> [] | Some l \<Rightarrow> l)) data))))"

record status_response =
  r_message :: string
  r_order_id :: int
  r_new_status :: string

text \<open>
  The write \<open>.update({'status': ..., 'status_timestamps': ...}).eq('id', order_id)\<close>:
  every row with that id gets the two columns.
\<close>

definition update_orders :: "int \<Rightarrow> string \<Rightarrow> (string \<rightharpoonup> string) \<Rightarrow> order list \<Rightarrow> order list" where
  "update_orders order_id new_status ts rows =
     map (\<lambda>row. if o_id row = order_id
                 then row\<lparr>o_status := new_status, o_status_timestamps := Some ts\<rparr>
                 else row) rows"

definition tracking_update_order_status ::
  "env \<Rightarrow> store \<Rightarrow> int \<Rightarrow> string \<Rightarrow> user \<Rightarrow> (error + status_response) \<times> store" where
  "tracking_update_order_status e db order_id new_status u =
     (if role u \<noteq> Some ''seller''
      then (Inl (HTTPException 403 ''Only sellers can update order status''), db)
      else
        (case single (filter (\<lambda>row. o_id row = order_id) (orders db)) of
           None \<Rightarrow> (Inl (HTTPException 404 ''Order not found''), db)
         | Some ord \<Rightarrow>
             (case sub u of
                None \<Rightarrow> (Inl (KeyError ''sub''), db)
              | Some s \<Rightarrow>
                  if o_seller_id ord \<noteq> s
                  then (Inl (HTTPException 403 ''You can only update your own orders''), db)
                  else if new_status \<notin> set tracking_ORDER_STATUSES
                  then (Inl (HTTPException 400 ''Invalid status''), db)
                  else
                    (case list_index tracking_ORDER_STATUSES new_status of
                       None \<Rightarrow> (Inl (ValueError new_status), db)
                     | Some i \<Rightarrow>
                         (case list_index tracking_ORDER_STATUSES (o_status ord) of
                            None \<Rightarrow> (Inl (ValueError (o_status ord)), db)
                          | Some j \<Rightarrow>
                              if i \<noteq> j + 1
                              then (Inl (HTTPException 400 ''Invalid status transition''), db)
                              else
                                (let status_timestamps =
                                       (case o_status_timestamps ord of
                                          None \<Rightarrow> Map.empty | Some m \<Rightarrow> m);
                                     status_timestamps' =
                                       status_timestamps(new_status \<mapsto> utcnow e)
                                 in case update_error e of
                                      Some err \<Rightarrow>
                                        (Inl (HTTPException 500 ''Failed to update order status''), db)
                                    | None \<Rightarrow>
                                        (Inr \<lparr>r_message = ''Order status updated'',
                                              r_order_id = order_id,
                                              r_new_status = new_status\<rparr>,
                                         db\<lparr>orders := update_orders order_id new_status
                                                          status_timestamps' (orders db)\<rparr>)))))))"

section \<open>Order handlers of main.py\<close>

definition main_ORDER_STATUSES :: "string list" where
  "main_ORDER_STATUSES = [''Placed'', ''Accepted'', ''Out for Delivery'', ''Delivered'']"

definition main_get_orders ::
  "store \<Rightarrow> string \<Rightarrow> user \<Rightarrow> error + (order \<times> order_item list) list" where
  "main_get_orders db user_id u =
     (case sub u of
        None \<Rightarrow> Inl (KeyError ''sub'')
      | Some s \<Rightarrow>
          if s \<noteq> user_id \<and> role u \<noteq> Some ''seller'' then Inl (HTTPException 403 ''Forbidden'')
          else
            (case (if role u = Some ''buyer''
                   then Inr (filter (\<lambda>row. o_buyer_id row = user_id) (orders db))
                   else if role u = Some ''seller''
                   then Inr (filter (\<lambda>row. o_seller_id row = user_id) (orders db))
                   else Inl (HTTPException 403 ''Invalid role'')) of
               Inl e \<Rightarrow> Inl e
             | Inr data \<Rightarrow>
                 if data = [] then Inr []
                 else
                   (let order_ids = map o_id data;
                        items = filter (\<lambda>i. i_order_id i \<in> set order_ids) (order_items db);
                        items_by_order = group_items Map.empty items
                    in Inr (map (\<lambda>row. (row, case items_by_order (o_id row) of
                                             None \<Rightarrow> [] | Some l \<Rightarrow> l)) data))))"

definition main_update_order_status ::
  "env \<Rightarrow> store \<Rightarrow> int \<Rightarrow> string \<Rightarrow> user \<Rightarrow> (error + status_response) \<times> store" where
  "main_update_order_status e db order_id new_status u =
     (if role u \<noteq> Some ''seller''
      then (Inl (HTTPException 403 ''Only sellers can update order status''), db)
      else
        (case single (filter (\<lambda>row. o_id row = order_id) (orders db)) of
           None \<Rightarrow> (Inl (HTTPException 404 ''Order not found''), db)
         | Some ord \<Rightarrow>
             (case sub u of
                None \<Rightarrow> (Inl (KeyError ''sub''), db)
              | Some s \<Rightarrow>
                  if o_seller_id ord \<noteq> s
                  then (Inl (HTTPException 403 ''You can only update your own orders''), db)
                  else if new_status \<notin> set main_ORDER_STATUSES
                  then (Inl (HTTPException 400 ''Invalid status''), db)
                  else
                    (case list_index main_ORDER_STATUSES new_status of
                       None \<Rightarrow> (Inl (ValueError new_status), db)
                     | Some i \<Rightarrow>
                         (case list_index main_ORDER_STATUSES (o_status ord) of
                            None \<Rightarrow> (Inl (ValueError (o_status ord)), db)
                          | Some j \<Rightarrow>
                              if i \<noteq> j + 1
                              then (Inl (HTTPException 400 ''Invalid status transition''), db)
                              else
                                (let status_timestamps =
                                       (case o_status_timestamps ord of
                                          None \<Rightarrow> Map.empty | Some m \<Rightarrow> m);
                                     status_timestamps' =
                                       status_timestamps(new_status \<mapsto> utcnow e)
                                 in case update_error e of
                                      Some err \<Rightarrow>
                                        (Inl (HTTPException 500 ''Failed to update order status''), db)
                                    | None \<Rightarrow>
                                        (Inr \<lparr>r_message = ''Order status updated'',
                                              r_order_id = order_id,
                                              r_new_status = new_status\<rparr>,
                                         db\<lparr>orders := update_orders order_id new_status
                                                          status_timestamps' (orders db)\<rparr>)))))))"

section \<open>Message handlers of chat.py\<close>

text \<open>
  Subscripts on a decoded JSON value, as Python evaluates them: \<open>x[key]\<close> for a string
  key (a dict gives the member or KeyError; a list, a string, a number, a boolean and
  \<open>None\<close> give TypeError), and \<open>x[0]\<close> (a list or a string gives its first element or
  IndexError; a dict has no key \<open>0\<close>; the rest give TypeError). Of two members with one
  key the decoder keeps the last.
\<close>

fun getitem_str :: "json \<Rightarrow> string \<Rightarrow> error + json" where
  "getitem_str (JObj members) k =
     (case map_of (rev members) k of None \<Rightarrow> Inl (KeyError k) | Some v \<Rightarrow> Inr v)"
| "getitem_str JNull k = Inl (TypeError k)"
| "getitem_str (JBool b) k = Inl (TypeError k)"
| "getitem_str (JNum n) k = Inl (TypeError k)"
| "getitem_str (JStr s) k = Inl (TypeError k)"
| "getitem_str (JArr xs) k = Inl (TypeError k)"

fun getitem_0 :: "json \<Rightarrow> error + json" where
  "getitem_0 (JArr []) = Inl IndexError"
| "getitem_0 (JArr (x # xs)) = Inr x"
| "getitem_0 (JStr []) = Inl IndexError"
| "getitem_0 (JStr (c # cs)) = Inr (JStr [c])"
| "getitem_0 (JObj members) = Inl (KeyError ''0'')"
| "getitem_0 JNull = Inl (TypeError ''0'')"
| "getitem_0 (JBool b) = Inl (TypeError ''0'')"
| "getitem_0 (JNum n) = Inl (TypeError ''0'')"

text \<open>\<open>resp.json()['data']['translations'][0]['translatedText']\<close>.\<close>

definition translated_text :: "http_response \<Rightarrow> error + json" where
  "translated_text resp =
     (case body resp of
        None \<Rightarrow> Inl JSONDecodeError
      | Some data \<Rightarrow>
          (case getitem_str data ''data'' of
             Inl err \<Rightarrow> Inl err
           | Inr d \<Rightarrow>
               (case getitem_str d ''translations'' of
                  Inl err \<Rightarrow> Inl err
                | Inr ts \<Rightarrow>
                    (case getitem_0 ts of
                       Inl err \<Rightarrow> Inl err
                     | Inr t \<Rightarrow> getitem_str t ''translatedText''))))"

text \<open>
  \<open>translate_text\<close>: one POST to the provider; the source language goes into the
  request only when it is truthy. Nothing is caught: what the POST or the reading of
  the answer raises leaves the function. Besides its value (\<open>JNull\<close> for \<open>None\<close>) the
  model returns the requests it sent.
\<close>

definition translate_text ::
  "env \<Rightarrow> string \<Rightarrow> string option \<Rightarrow> string option
     \<Rightarrow> (error + json) \<times> translate_request list" where
  "translate_text e text target_lang source_lang =
     (let params = \<lparr>q = text, target = target_lang,
                     source = (if source_lang \<noteq> None \<and> source_lang \<noteq> Some []
                               then source_lang else None)\<rparr>
      in case http_post e params of
           Inl err \<Rightarrow> (Inl err, [params])
         | Inr resp \<Rightarrow>
             if status_code resp = 200 then (translated_text resp, [params])
             else (Inr JNull, [params]))"

text \<open>
  \<open>profile.get('preferred_language', 'en') if profile else 'en'\<close> on the row that
  \<open>select('preferred_language')\<close> returns: the row always carries the column, so a
  NULL column gives \<open>None\<close>, and only a missing profile gives the default.
\<close>

definition lang_of :: "profile option \<Rightarrow> string option" where
  "lang_of prof = (case prof of None \<Rightarrow> Some ''en'' | Some p \<Rightarrow> p_preferred_language p)"

definition send_message ::
  "env \<Rightarrow> store \<Rightarrow> string \<Rightarrow> string \<Rightarrow> user
     \<Rightarrow> (error + string) \<times> store \<times> translate_request list" where
  "send_message e db receiver_id msg u =
     (case sub u of
        None \<Rightarrow> (Inl (KeyError ''sub''), db, [])
      | Some sender_id \<Rightarrow>
          (let sender_profile = single (filter (\<lambda>p. p_id p = sender_id) (profiles db));
               receiver_profile = single (filter (\<lambda>p. p_id p = receiver_id) (profiles db));
               sender_lang = lang_of sender_profile;
               receiver_lang = lang_of receiver_profile;
               tr = (if sender_lang \<noteq> receiver_lang
                     then translate_text e msg receiver_lang sender_lang
                     else (Inr JNull, []))
           in case fst tr of
                Inl err \<Rightarrow> (Inl err, db, snd tr)
              | Inr translated_message \<Rightarrow>
                  (case insert_error e of
                     Some err \<Rightarrow> (Inl (HTTPException 500 ''Failed to send message''), db, snd tr)
                   | None \<Rightarrow>
                       (Inr ''Message sent'',
                        db\<lparr>messages := messages db @
                              [\<lparr>m_id = store_id e, m_sender_id = sender_id,
                                m_receiver_id = receiver_id, m_message = msg,
                                m_translated_message = translated_message,
                                m_timestamp = store_now e\<rparr>]\<rparr>,
                        snd tr))))"

text \<open>\<open>s.split(sep)\<close> for a one-character separator: every occurrence splits.\<close>

fun split_str :: "char \<Rightarrow> string \<Rightarrow> string list" where
  "split_str sep [] = [[]]"
| "split_str sep (c # cs) =
     (if c = sep then [] # split_str sep cs
      else (case split_str sep cs of [] \<Rightarrow> [[c]] | w # ws \<Rightarrow> (c # w) # ws))"

text \<open>
  The text that \<open>get_messages\<close> hands to \<open>or_\<close>: the f-string, with the two ids
  written into it as they are.
\<close>

definition filter_text :: "string \<Rightarrow> string \<Rightarrow> string" where
  "filter_text a b =
     ''and(sender_id.eq.'' @ a @ '',receiver_id.eq.'' @ b @ ''),and(sender_id.eq.'' @ b @
     '',receiver_id.eq.'' @ a @ '')''"

text \<open>
  How the store reads such a text. The client sends \<open>or=(text)\<close>; the store parses
  \<open>or(text)\<close> as a tree: \<open>and(...)\<close> and \<open>or(...)\<close> over a comma-separated list of
  trees, and leaves \<open>column.operator.value\<close>, where an unquoted value runs up to the next
  comma or closing parenthesis. \<open>parse_tree n\<close> parses one tree and returns the rest of
  the text; \<open>n\<close> bounds the depth, and \<open>read_or\<close> starts it with the length of the text.
\<close>

datatype logic = Filter string string string | And "logic list" | Or "logic list"

definition field_char :: "char \<Rightarrow> bool" where
  "field_char c \<longleftrightarrow> c \<noteq> CHR ''.'' \<and> c \<noteq> CHR '','' \<and> c \<noteq> CHR ''('' \<and> c \<noteq> CHR '')''"

definition value_char :: "char \<Rightarrow> bool" where
  "value_char c \<longleftrightarrow> c \<noteq> CHR '','' \<and> c \<noteq> CHR '')''"

definition parse_filter :: "string \<Rightarrow> (logic \<times> string) option" where
  "parse_filter s =
     (case dropWhile field_char s of
        [] \<Rightarrow> None
      | c # r1 \<Rightarrow>
          if c \<noteq> CHR ''.'' then None
          else
            (case dropWhile field_char r1 of
               [] \<Rightarrow> None
             | d # r2 \<Rightarrow>
                 if d \<noteq> CHR ''.'' then None
                 else Some (Filter (takeWhile field_char s) (takeWhile field_char r1)
                              (takeWhile value_char r2),
                            dropWhile value_char r2)))"

fun parse_tree :: "nat \<Rightarrow> string \<Rightarrow> (logic \<times> string) option"
  and parse_list :: "nat \<Rightarrow> string \<Rightarrow> (logic list \<times> string) option" where
  "parse_tree 0 s = None"
| "parse_tree (Suc n) s =
     (if take 4 s = ''and(''
      then (case parse_list n (drop 4 s) of
              None \<Rightarrow> None
            | Some (ts, rest) \<Rightarrow>
                (case rest of
                   [] \<Rightarrow> None
                 | c # rest' \<Rightarrow> if c = CHR '')'' then Some (And ts, rest') else None))
      else if take 3 s = ''or(''
      then (case parse_list n (drop 3 s) of
              None \<Rightarrow> None
            | Some (ts, rest) \<Rightarrow>
                (case rest of
                   [] \<Rightarrow> None
                 | c # rest' \<Rightarrow> if c = CHR '')'' then Some (Or ts, rest') else None))
      else parse_filter s)"
| "parse_list 0 s = None"
| "parse_list (Suc n) s =
     (case parse_tree n s of
        None \<Rightarrow> None
      | Some (t, rest) \<Rightarrow>
          (case rest of
             [] \<Rightarrow> Some ([t], rest)
           | c # rest' \<Rightarrow>
               if c = CHR '',''
               then (case parse_list n rest' of
                       None \<Rightarrow> None
                     | Some (ts, rest'') \<Rightarrow> Some (t # ts, rest''))
               else Some ([t], rest)))"

definition read_or :: "string \<Rightarrow> logic option" where
  "read_or text =
     (let s = ''or('' @ text @ '')''
      in case parse_tree (length s) s of
           None \<Rightarrow> None
         | Some (t, rest) \<Rightarrow> if rest = [] then Some t else None)"

text \<open>
  What a leaf says of a row of \<open>messages\<close>: equality on the two id columns, and the
  comparisons on the numeric \<open>id\<close>, whose value must be a decimal integer. A leaf outside
  these has no reading here.
\<close>

fun digits_value :: "nat \<Rightarrow> string \<Rightarrow> nat option" where
  "digits_value acc [] = Some acc"
| "digits_value acc (c # cs) =
     (let n = (of_char c :: nat)
      in if 48 \<le> n \<and> n \<le> 57 then digits_value (10 * acc + (n - 48)) cs else None)"

definition parse_int :: "string \<Rightarrow> int option" where
  "parse_int s =
     (case s of
        [] \<Rightarrow> None
      | c # cs \<Rightarrow>
          if c = CHR ''-''
          then (if cs = [] then None else map_option (\<lambda>n. - int n) (digits_value 0 cs))
          else map_option int (digits_value 0 s))"

definition compare_op :: "string \<Rightarrow> (int \<Rightarrow> int \<Rightarrow> bool) option" where
  "compare_op op =
     (if op = ''eq'' then Some (=)
      else if op = ''neq'' then Some (\<noteq>)
      else if op = ''gt'' then Some (\<lambda>x y. y < x)
      else if op = ''gte'' then Some (\<lambda>x y. y \<le> x)
      else if op = ''lt'' then Some (<)
      else if op = ''lte'' then Some (\<le>)
      else None)"

definition read_filter :: "string \<Rightarrow> string \<Rightarrow> string \<Rightarrow> (message \<Rightarrow> bool) option" where
  "read_filter field op v =
     (if field = ''sender_id'' \<and> op = ''eq'' then Some (\<lambda>m. m_sender_id m = v)
      else if field = ''receiver_id'' \<and> op = ''eq'' then Some (\<lambda>m. m_receiver_id m = v)
      else if field = ''id''
      then (case compare_op op of
              None \<Rightarrow> None
            | Some cmp \<Rightarrow>
                (case parse_int v of
                   None \<Rightarrow> None
                 | Some n \<Rightarrow> Some (\<lambda>m. cmp (m_id m) n)))
      else None)"

fun readable :: "logic \<Rightarrow> bool" where
  "readable (Filter field op v) = (read_filter field op v \<noteq> None)"
| "readable (And ts) = list_all readable ts"
| "readable (Or ts) = list_all readable ts"

fun holds :: "logic \<Rightarrow> message \<Rightarrow> bool" where
  "holds (Filter field op v) m =
     (case read_filter field op v of None \<Rightarrow> False | Some p \<Rightarrow> p m)"
| "holds (And ts) m = list_all (\<lambda>t. holds t m) ts"
| "holds (Or ts) m = list_ex (\<lambda>t. holds t m) ts"

text \<open>
  The rows \<open>or_(text)\<close> selects. For a text that does not parse, or has a leaf without
  a reading here (negation, quoted values, other columns and operators are not part of
  this reading), it selects none; a store that rejects a text answers with an error, which
  is \<open>select_error\<close>.
\<close>

definition or_rows :: "string \<Rightarrow> message list \<Rightarrow> message list" where
  "or_rows text rows =
     (case read_or text of
        None \<Rightarrow> []
      | Some t \<Rightarrow> if readable t then filter (holds t) rows else [])"

text \<open>
  The rest of the query: \<open>order('timestamp', desc=False)\<close>, and \<open>range(lo, hi)\<close>, which
  keeps the rows at positions \<open>lo\<close> to \<open>hi\<close>, both included.
\<close>

definition order_by_timestamp :: "message list \<Rightarrow> message list" where
  "order_by_timestamp rows = sort_key m_timestamp rows"

definition range_rows :: "int \<Rightarrow> int \<Rightarrow> 'a list \<Rightarrow> 'a list" where
  "range_rows lo hi rows = take (nat (hi - lo + 1)) (drop (nat lo) rows)"

text \<open>
  \<open>limit_q\<close> and \<open>offset_q\<close> are the query parameters as sent (\<open>None\<close> when
  omitted); \<open>Query(50, ge=1, le=100)\<close> and \<open>Query(0, ge=0)\<close> give the defaults and the
  bounds the framework enforces before the body runs.
\<close>

definition get_messages ::
  "env \<Rightarrow> store \<Rightarrow> string \<Rightarrow> user \<Rightarrow> int option \<Rightarrow> int option \<Rightarrow> error + message list" where
  "get_messages e db conversation_id u limit_q offset_q =
     (let limit = (case limit_q of None \<Rightarrow> 50 | Some l \<Rightarrow> l);
          offset = (case offset_q of None \<Rightarrow> 0 | Some k \<Rightarrow> k)
      in if limit < 1 \<or> 100 < limit then Inl (RequestValidationError ''limit'')
         else if offset < 0 then Inl (RequestValidationError ''offset'')
         else
           (let user_ids = split_str CHR ''_'' conversation_id
            in if length user_ids \<noteq> 2
               then Inl (HTTPException 400 ''Invalid conversation_id'')
               else
                 (case sub u of
                    None \<Rightarrow> Inl (KeyError ''sub'')
                  | Some s \<Rightarrow>
                      if s \<notin> set user_ids then Inl (HTTPException 403 ''Forbidden'')
                      else
                        (let data = range_rows offset (offset + limit - 1)
                                      (order_by_timestamp
                                         (or_rows (filter_text (user_ids ! 0) (user_ids ! 1))
                                            (messages db)))
                         in case select_error e of
                              Some err \<Rightarrow> Inl (HTTPException 500 ''Failed to fetch messages'')
                            | None \<Rightarrow> Inr data))))"

text \<open>
  What the query is written for, \<open># Fetch messages between the two users\<close>: the
  messages from one of the two ids to the other. \<open>plain_id\<close> says that an id holds none
  of the characters that end or quote a value in a filter text.
\<close>

definition conversation_filter :: "string \<Rightarrow> string \<Rightarrow> message \<Rightarrow> bool" where
  "conversation_filter a b m \<longleftrightarrow>
     (m_sender_id m = a \<and> m_receiver_id m = b) \<or> (m_sender_id m = b \<and> m_receiver_id m = a)"

definition plain_id :: "string \<Rightarrow> bool" where
  "plain_id a \<longleftrightarrow> list_all (\<lambda>c. c \<notin> set '',()\"{}'') a"

section \<open>Reading an order, and sequences of updates\<close>

text \<open>\<open>order.get('status_timestamps') or {}\<close>: the timestamps an order carries.\<close>

definition timestamps_of :: "order \<Rightarrow> (string \<rightharpoonup> string)" where
  "timestamps_of ord = (case o_status_timestamps ord of None \<Rightarrow> Map.empty | Some m \<Rightarrow> m)"

text \<open>The position of a status in the ordered list (for a status of the list).\<close>

definition status_rank :: "string \<Rightarrow> nat" where
  "status_rank s = the (list_index tracking_ORDER_STATUSES s)"

text \<open>
  An order as a sequence of updates from a fresh order leaves it: its status is one of the
  four, and it has timestamps only for statuses it has reached.
\<close>

definition wf_order :: "order \<Rightarrow> bool" where
  "wf_order ord \<longleftrightarrow>
     o_status ord \<in> set tracking_ORDER_STATUSES \<and>
     (\<forall>k \<in> dom (timestamps_of ord).
        k \<in> set tracking_ORDER_STATUSES \<and> status_rank k \<le> status_rank (o_status ord))"

text \<open>
  \<open>order_le x x'\<close>: \<open>x'\<close> is the same order as \<open>x\<close>, with every timestamp key of \<open>x\<close>
  and a status that is the same or later in the list.
\<close>

definition order_le :: "order \<Rightarrow> order \<Rightarrow> bool" where
  "order_le x x' \<longleftrightarrow>
     o_id x' = o_id x \<and> dom (timestamps_of x) \<subseteq> dom (timestamps_of x') \<and>
     (o_status x' = o_status x \<or>
      (o_status x \<in> set tracking_ORDER_STATUSES \<and> o_status x' \<in> set tracking_ORDER_STATUSES \<and>
       status_rank (o_status x) < status_rank (o_status x')))"

text \<open>One status-update request, and a handler run over a sequence of them.\<close>

record update_call =
  c_env :: env
  c_order_id :: int
  c_new_status :: string
  c_user :: user

fun run_updates ::
  "(env \<Rightarrow> store \<Rightarrow> int \<Rightarrow> string \<Rightarrow> user \<Rightarrow> (error + status_response) \<times> store)
     \<Rightarrow> store \<Rightarrow> update_call list \<Rightarrow> store" where
  "run_updates h db [] = db"
| "run_updates h db (c # cs) =
     run_updates h (snd (h (c_env c) db (c_order_id c) (c_new_status c) (c_user c))) cs"

section \<open>A small store to run the handlers on\<close>

definition demo_order :: order where
  "demo_order = \<lparr>o_id = 7, o_buyer_id = ''bob'', o_seller_id = ''alice'',
     o_status = ''Accepted'', o_status_timestamps = Some [''Accepted'' \<mapsto> ''t1''],
     o_created_at = ''t0''\<rparr>"

definition demo_env :: env where
  "demo_env = \<lparr>utcnow = ''t2'', store_now = 30, store_id = 3, update_error = None,
     insert_error = None, select_error = None,
     http_post = (\<lambda>r. Inr \<lparr>status_code = 200, body = Some (JObj [(''data'',
       JObj [(''translations'', JArr [JObj [(''translatedText'', JStr ''hola'')]])])])\<rparr>)\<rparr>"

definition demo_cancelled_order :: order where
  "demo_cancelled_order = \<lparr>o_id = 9, o_buyer_id = ''bob'', o_seller_id = ''alice'',
     o_status = ''Cancelled'', o_status_timestamps = None, o_created_at = ''t0''\<rparr>"

definition demo_delivered_order :: order where
  "demo_delivered_order = \<lparr>o_id = 11, o_buyer_id = ''bob'', o_seller_id = ''alice'',
     o_status = ''Delivered'', o_status_timestamps = None, o_created_at = ''t0''\<rparr>"

definition demo_items :: "order_item list" where
  "demo_items =
     [\<lparr>i_id = 1, i_order_id = 7, i_item_name = ''tea'', i_quantity = 2, i_price = 3\<rparr>,
      \<lparr>i_id = 2, i_order_id = 11, i_item_name = ''rice'', i_quantity = 1, i_price = 5 / 2\<rparr>,
      \<lparr>i_id = 3, i_order_id = 7, i_item_name = ''salt'', i_quantity = 1, i_price = 1\<rparr>]"

definition demo_messages :: "message list" where
  "demo_messages =
     [\<lparr>m_id = 1, m_sender_id = ''alice'', m_receiver_id = ''bob'', m_message = ''hello'',
       m_translated_message = JStr ''hola'', m_timestamp = 20\<rparr>,
      \<lparr>m_id = 2, m_sender_id = ''bob'', m_receiver_id = ''alice'', m_message = ''gracias'',
       m_translated_message = JStr ''thanks'', m_timestamp = 10\<rparr>,
      \<lparr>m_id = 3, m_sender_id = ''alice'', m_receiver_id = ''carol'', m_message = ''hi'',
       m_translated_message = JNull, m_timestamp = 15\<rparr>,
      \<lparr>m_id = 4, m_sender_id = ''alice'', m_receiver_id = ''alice'', m_message = ''note'',
       m_translated_message = JNull, m_timestamp = 5\<rparr>,
      \<lparr>m_id = 5, m_sender_id = ''bob'', m_receiver_id = ''carol'', m_message = ''secret'',
       m_translated_message = JNull, m_timestamp = 25\<rparr>]"

definition demo_store :: store where
  "demo_store = \<lparr>profiles = [\<lparr>p_id = ''alice'', p_preferred_language = Some ''en''\<rparr>,
                             \<lparr>p_id = ''bob'', p_preferred_language = Some ''es''\<rparr>,
                             \<lparr>p_id = ''dave'', p_preferred_language = None\<rparr>],
     messages = demo_messages,
     orders = [demo_order, demo_cancelled_order, demo_delivered_order],
     order_items = demo_items\<rparr>"

definition demo_seller :: user where
  "demo_seller = \<lparr>sub = Some ''alice'', role = Some ''seller''\<rparr>"

definition demo_buyer :: user where
  "demo_buyer = \<lparr>sub = Some ''bob'', role = Some ''buyer''\<rparr>"

definition demo_other_seller :: user where
  "demo_other_seller = \<lparr>sub = Some ''carol'', role = Some ''seller''\<rparr>"

definition demo_env_down :: env where
  "demo_env_down = demo_env\<lparr>http_post := (\<lambda>r. Inr \<lparr>status_code = 503, body = None\<rparr>)\<rparr>"

definition demo_env_unreachable :: env where
  "demo_env_unreachable =
     demo_env\<lparr>http_post := (\<lambda>r. Inl (RequestException ''connection refused''))\<rparr>"

definition demo_env_empty :: env where
  "demo_env_empty = demo_env\<lparr>http_post := (\<lambda>r. Inr \<lparr>status_code = 200,
     body = Some (JObj [(''data'', JObj [(''translations'', JArr [])])])\<rparr>)\<rparr>"

definition demo_calls :: "update_call list" where
  "demo_calls =
     [\<lparr>c_env = demo_env, c_order_id = 7, c_new_status = ''Out for Delivery'', c_user = demo_seller\<rparr>,
      \<lparr>c_env = demo_env, c_order_id = 7, c_new_status = ''Placed'', c_user = demo_seller\<rparr>]"

section \<open>Lookups and the two copies of the order handlers\<close>

lemma list_index_None_iff: "list_index xs x = None \<longleftrightarrow> x \<notin> set xs"
  by (induction xs) auto

lemma list_index_Some_nth: "list_index xs x = Some i \<Longrightarrow> i < length xs \<and> xs ! i = x"
  by (induction xs arbitrary: i) (auto split: if_splits)

lemma single_None_iff: "single rows = None \<longleftrightarrow> rows = []"
  by (cases rows) (simp_all add: single_def)

lemma single_filter_None_iff:
  "single (filter (\<lambda>row. o_id row = k) rows) = None \<longleftrightarrow> k \<notin> o_id ` set rows"
  by (auto simp: single_None_iff filter_empty_conv)

lemma single_filter_distinct:
  "distinct (map o_id rows) \<Longrightarrow> ord \<in> set rows \<Longrightarrow>
   single (filter (\<lambda>row. o_id row = o_id ord) rows) = Some ord"
proof (induction rows)
  case Nil
  then show ?case by simp
next
  case (Cons r rows)
  then show ?case by (auto simp: single_def split: list.splits)
qed

lemma main_ORDER_STATUSES_eq: "main_ORDER_STATUSES = tracking_ORDER_STATUSES"
  by (simp add: main_ORDER_STATUSES_def tracking_ORDER_STATUSES_def)

lemma main_update_order_status_eq: "main_update_order_status = tracking_update_order_status"
  unfolding main_update_order_status_def tracking_update_order_status_def main_ORDER_STATUSES_eq
  by (rule refl)

lemma main_get_orders_eq: "main_get_orders = tracking_get_orders"
  unfolding main_get_orders_def tracking_get_orders_def
  by (rule refl)

lemma update_authorized:
  assumes "role u = Some ''seller''"
    and "single (filter (\<lambda>row. o_id row = order_id) (orders db)) = Some ord"
    and "sub u = Some (o_seller_id ord)"
  shows "tracking_update_order_status e db order_id new_status u =
     (if new_status \<notin> set tracking_ORDER_STATUSES
      then (Inl (HTTPException 400 ''Invalid status''), db)
      else case list_index tracking_ORDER_STATUSES (o_status ord) of
             None \<Rightarrow> (Inl (ValueError (o_status ord)), db)
           | Some j \<Rightarrow>
               if the (list_index tracking_ORDER_STATUSES new_status) \<noteq> j + 1
               then (Inl (HTTPException 400 ''Invalid status transition''), db)
               else if update_error e \<noteq> None
               then (Inl (HTTPException 500 ''Failed to update order status''), db)
               else (Inr \<lparr>r_message = ''Order status updated'', r_order_id = order_id,
                          r_new_status = new_status\<rparr>,
                     db\<lparr>orders := update_orders order_id new_status
                        ((case o_status_timestamps ord of None \<Rightarrow> Map.empty | Some m \<Rightarrow> m)
                           (new_status \<mapsto> utcnow e)) (orders db)\<rparr>))"
proof (cases "new_status \<in> set tracking_ORDER_STATUSES")
  case True
  then obtain i where i: "list_index tracking_ORDER_STATUSES new_status = Some i"
    using list_index_None_iff [of tracking_ORDER_STATUSES new_status] by auto
  show ?thesis
    using assms True i
    by (simp add: tracking_update_order_status_def Let_def split: option.splits)
next
  case False
  then show ?thesis
    using assms by (simp add: tracking_update_order_status_def)
qed

section \<open>The effect of a status update\<close>

lemma update_cases:
  "snd (tracking_update_order_status e db order_id new_status u) = db \<or>
   (\<exists>ord j. single (filter (\<lambda>row. o_id row = order_id) (orders db)) = Some ord \<and>
      list_index tracking_ORDER_STATUSES (o_status ord) = Some j \<and>
      list_index tracking_ORDER_STATUSES new_status = Some (Suc j) \<and>
      tracking_update_order_status e db order_id new_status u =
        (Inr \<lparr>r_message = ''Order status updated'', r_order_id = order_id,
              r_new_status = new_status\<rparr>,
         db\<lparr>orders := update_orders order_id new_status
              ((timestamps_of ord)(new_status \<mapsto> utcnow e)) (orders db)\<rparr>))"
  by (auto simp: tracking_update_order_status_def timestamps_of_def Let_def
      split: option.splits)

lemma update_success:
  assumes "tracking_update_order_status e db order_id new_status u = (Inr r, db')"
  shows "\<exists>ord j. single (filter (\<lambda>row. o_id row = order_id) (orders db)) = Some ord \<and>
      list_index tracking_ORDER_STATUSES (o_status ord) = Some j \<and>
      list_index tracking_ORDER_STATUSES new_status = Some (Suc j) \<and>
      r = \<lparr>r_message = ''Order status updated'', r_order_id = order_id,
              r_new_status = new_status\<rparr> \<and>
      db' = db\<lparr>orders := update_orders order_id new_status
              ((timestamps_of ord)(new_status \<mapsto> utcnow e)) (orders db)\<rparr>"
  using assms
  by (auto simp: tracking_update_order_status_def timestamps_of_def Let_def
      split: option.splits if_splits)

lemma single_filter_Some_mem:
  "single (filter P rows) = Some r \<Longrightarrow> r \<in> set rows \<and> P r"
proof -
  assume a: "single (filter P rows) = Some r"
  then obtain rest where "filter P rows = r # rest"
    by (auto simp: single_def split: list.splits)
  then have "r \<in> set (filter P rows)" by simp
  then show ?thesis by simp
qed

lemma update_orders_ids: "map o_id (update_orders k s ts rows) = map o_id rows"
  by (induction rows) (simp_all add: update_orders_def)

lemma update_orders_distinct:
  assumes "distinct (map o_id rows)" and "ord \<in> set rows"
  shows "update_orders (o_id ord) s ts rows =
           map (\<lambda>row. if row = ord then ord\<lparr>o_status := s, o_status_timestamps := Some ts\<rparr> else row) rows"
proof -
  have inj: "inj_on o_id (set rows)"
    using assms(1) by (simp add: distinct_map)
  have "\<And>row. row \<in> set rows \<Longrightarrow> (o_id row = o_id ord) = (row = ord)"
    using inj assms(2) by (auto dest: inj_onD)
  then show ?thesis
    unfolding update_orders_def by (intro map_cong) simp_all
qed

lemma order_le_refl: "order_le x x"
  by (simp add: order_le_def)

lemma order_le_trans: "order_le x y \<Longrightarrow> order_le y z \<Longrightarrow> order_le x z"
  unfolding order_le_def by (elim conjE disjE) (auto intro: less_trans)

lemma list_index_mem: "list_index xs x = Some i \<Longrightarrow> x \<in> set xs"
  using list_index_None_iff [of xs x] by auto

lemma update_step_ids:
  "map o_id (orders (snd (tracking_update_order_status e db order_id new_status u))) =
   map o_id (orders db)"
  using update_cases [of e db order_id new_status u]
  by (auto simp: update_orders_ids)

lemma update_step_le:
  assumes pk: "distinct (map o_id (orders db))" and x: "x \<in> set (orders db)"
  shows "\<exists>x' \<in> set (orders (snd (tracking_update_order_status e db order_id new_status u))).
           order_le x x'"
proof -
  consider (same) "snd (tracking_update_order_status e db order_id new_status u) = db"
    | (upd) ord j where
        "single (filter (\<lambda>row. o_id row = order_id) (orders db)) = Some ord"
        "list_index tracking_ORDER_STATUSES (o_status ord) = Some j"
        "list_index tracking_ORDER_STATUSES new_status = Some (Suc j)"
        "snd (tracking_update_order_status e db order_id new_status u) =
           db\<lparr>orders := update_orders order_id new_status
              ((timestamps_of ord)(new_status \<mapsto> utcnow e)) (orders db)\<rparr>"
    using update_cases [of e db order_id new_status u] by auto
  then show ?thesis
  proof cases
    case same
    then show ?thesis using x order_le_refl by auto
  next
    case upd
    let ?ts = "(timestamps_of ord)(new_status \<mapsto> utcnow e)"
    let ?ord' = "ord\<lparr>o_status := new_status, o_status_timestamps := Some ?ts\<rparr>"
    from single_filter_Some_mem [OF upd(1)] have ord: "ord \<in> set (orders db)" "o_id ord = order_id"
      by simp_all
    have rows: "orders (snd (tracking_update_order_status e db order_id new_status u)) =
        map (\<lambda>row. if row = ord then ?ord' else row) (orders db)"
      using update_orders_distinct [OF pk ord(1), of new_status ?ts] upd(4) ord(2) by simp
    show ?thesis
    proof (cases "x = ord")
      case True
      have "order_le ord ?ord'"
        using upd(2,3) list_index_mem [OF upd(2)] list_index_mem [OF upd(3)]
        by (auto simp: order_le_def timestamps_of_def status_rank_def)
      moreover have "?ord' \<in> set (map (\<lambda>row. if row = ord then ?ord' else row) (orders db))"
        using ord(1) by (auto simp: image_iff)
      ultimately show ?thesis using True rows by auto
    next
      case False
      then have "x \<in> set (map (\<lambda>row. if row = ord then ?ord' else row) (orders db))"
        using x by (auto simp: image_iff)
      then show ?thesis using rows order_le_refl by auto
    qed
  qed
qed

lemma run_updates_ids:
  "map o_id (orders (run_updates tracking_update_order_status db calls)) = map o_id (orders db)"
  by (induction calls arbitrary: db) (simp_all add: update_step_ids)

lemma run_updates_le:
  assumes "distinct (map o_id (orders db))" and "x \<in> set (orders db)"
  shows "\<exists>x' \<in> set (orders (run_updates tracking_update_order_status db calls)). order_le x x'"
  using assms
proof (induction calls arbitrary: db x)
  case Nil
  then show ?case using order_le_refl by auto
next
  case (Cons c calls)
  let ?db = "snd (tracking_update_order_status (c_env c) db (c_order_id c) (c_new_status c) (c_user c))"
  from update_step_le [OF Cons.prems] obtain y where
    y: "y \<in> set (orders ?db)" "order_le x y" by blast
  have pk: "distinct (map o_id (orders ?db))"
    using Cons.prems(1) by (simp add: update_step_ids)
  from Cons.IH [OF pk y(1)] obtain z where
    "z \<in> set (orders (run_updates tracking_update_order_status ?db calls))" "order_le y z"
    by blast
  then show ?case using y(2) order_le_trans by auto
qed

lemma delivered_rejected:
  assumes "role u = Some ''seller''"
    and "single (filter (\<lambda>row. o_id row = order_id) (orders db)) = Some ord"
    and "sub u = Some (o_seller_id ord)"
    and "o_status ord = ''Delivered''"
  shows "tracking_update_order_status e db order_id new_status u =
           (Inl (HTTPException 400 (if new_status \<in> set tracking_ORDER_STATUSES
              then ''Invalid status transition'' else ''Invalid status'')), db)"
proof (cases "new_status \<in> set tracking_ORDER_STATUSES")
  case True
  then have "the (list_index tracking_ORDER_STATUSES new_status) < 4"
    by (auto simp: tracking_ORDER_STATUSES_def)
  moreover have "list_index tracking_ORDER_STATUSES ''Delivered'' = Some 3"
    by (simp add: tracking_ORDER_STATUSES_def)
  ultimately show ?thesis
    unfolding update_authorized [OF assms(1-3)] using True assms(4) by simp
next
  case False
  then show ?thesis
    unfolding update_authorized [OF assms(1-3)] by simp
qed

lemma send_message_orders: "orders (fst (snd (send_message e db receiver_id msg u))) = orders db"
  by (simp add: send_message_def Let_def split: option.splits sum.splits)

lemma success_new_key:
  assumes "wf_order ord"
    and "list_index tracking_ORDER_STATUSES (o_status ord) = Some j"
    and "list_index tracking_ORDER_STATUSES new_status = Some (Suc j)"
  shows "new_status \<notin> dom (timestamps_of ord)"
proof
  assume "new_status \<in> dom (timestamps_of ord)"
  with assms(1) have "status_rank new_status \<le> status_rank (o_status ord)"
    by (simp add: wf_order_def)
  with assms(2,3) show False by (simp add: status_rank_def)
qed

lemma update_success_effect:
  assumes pk: "distinct (map o_id (orders db))"
    and ord: "ord \<in> set (orders db)"
    and ok: "tracking_update_order_status e db (o_id ord) new_status u = (Inr r, db')"
  shows "\<exists>ord'. orders db' = map (\<lambda>row. if row = ord then ord' else row) (orders db) \<and>
              o_id ord' = o_id ord \<and>
              o_status ord' = new_status \<and>
              timestamps_of ord' new_status = Some (utcnow e) \<and>
              dom (timestamps_of ord') = insert new_status (dom (timestamps_of ord)) \<and>
              (\<forall>k. k \<noteq> new_status \<longrightarrow> timestamps_of ord' k = timestamps_of ord k) \<and>
              (wf_order ord \<longrightarrow> new_status \<notin> dom (timestamps_of ord) \<and>
                 (\<forall>k \<in> dom (timestamps_of ord). timestamps_of ord' k = timestamps_of ord k))"
proof -
  from update_success [OF ok] obtain ord0 j where
    s: "single (filter (\<lambda>row. o_id row = o_id ord) (orders db)) = Some ord0"
    and j: "list_index tracking_ORDER_STATUSES (o_status ord0) = Some j"
    and i: "list_index tracking_ORDER_STATUSES new_status = Some (Suc j)"
    and db': "db' = db\<lparr>orders := update_orders (o_id ord) new_status
            ((timestamps_of ord0)(new_status \<mapsto> utcnow e)) (orders db)\<rparr>"
    by blast
  have ord0: "ord0 = ord"
    using s single_filter_distinct [OF pk ord] by simp
  define ts where "ts = (timestamps_of ord)(new_status \<mapsto> utcnow e)"
  define ord' where "ord' = ord\<lparr>o_status := new_status, o_status_timestamps := Some ts\<rparr>"
  have rows: "orders db' = map (\<lambda>row. if row = ord then ord' else row) (orders db)"
    using update_orders_distinct [OF pk ord, of new_status ts] db' ord0
    by (simp add: ts_def ord'_def)
  have tsof: "timestamps_of ord' = ts"
    by (simp add: timestamps_of_def ord'_def)
  have c1: "o_id ord' = o_id ord" "o_status ord' = new_status"
    by (simp_all add: ord'_def)
  have c2: "timestamps_of ord' new_status = Some (utcnow e)"
    by (simp add: tsof ts_def)
  have c3: "dom (timestamps_of ord') = insert new_status (dom (timestamps_of ord))"
    by (simp add: tsof ts_def)
  have c4: "\<forall>k. k \<noteq> new_status \<longrightarrow> timestamps_of ord' k = timestamps_of ord k"
    by (simp add: tsof ts_def)
  have c5: "wf_order ord \<longrightarrow> new_status \<notin> dom (timestamps_of ord) \<and>
      (\<forall>k \<in> dom (timestamps_of ord). timestamps_of ord' k = timestamps_of ord k)"
  proof
    assume wf: "wf_order ord"
    have new: "new_status \<notin> dom (timestamps_of ord)"
      using success_new_key [OF wf] j i ord0 by simp
    have "timestamps_of ord' k = timestamps_of ord k" if "k \<in> dom (timestamps_of ord)" for k
    proof -
      from that new have "k \<noteq> new_status" by blast
      then show ?thesis using c4 by blast
    qed
    then show "new_status \<notin> dom (timestamps_of ord) \<and>
      (\<forall>k \<in> dom (timestamps_of ord). timestamps_of ord' k = timestamps_of ord k)"
      using new by blast
  qed
  from rows c1 c2 c3 c4 c5 show ?thesis by blast
qed

lemma update_keeps_keys:
  assumes pk: "distinct (map o_id (orders db))"
    and ord: "ord \<in> set (orders db)"
  shows "\<exists>x' \<in> set (orders (snd (tracking_update_order_status e db order_id new_status u))).
            o_id x' = o_id ord \<and> dom (timestamps_of ord) \<subseteq> dom (timestamps_of x')"
proof -
  from update_step_le [OF pk ord, of e order_id new_status u] obtain x' where
    "x' \<in> set (orders (snd (tracking_update_order_status e db order_id new_status u)))"
    "order_le ord x'" by blast
  then show ?thesis unfolding order_le_def by blast
qed

lemma wf_order_advance:
  assumes wf: "wf_order ord"
    and j: "list_index tracking_ORDER_STATUSES (o_status ord) = Some j"
    and i: "list_index tracking_ORDER_STATUSES new_status = Some (Suc j)"
  shows "wf_order (row\<lparr>o_status := new_status,
           o_status_timestamps := Some ((timestamps_of ord)(new_status \<mapsto> t))\<rparr>)"
proof -
  have rj: "status_rank (o_status ord) = j" "status_rank new_status = Suc j"
    using j i by (simp_all add: status_rank_def)
  have mem: "new_status \<in> set tracking_ORDER_STATUSES"
    using list_index_mem [OF i] .
  have old: "k \<in> set tracking_ORDER_STATUSES \<and> status_rank k \<le> j"
    if "k \<in> dom (timestamps_of ord)" for k
    using wf that rj(1) unfolding wf_order_def by auto
  have "k \<in> set tracking_ORDER_STATUSES \<and> status_rank k \<le> Suc j"
    if "k \<in> dom ((timestamps_of ord)(new_status \<mapsto> t))" for k
  proof (cases "k = new_status")
    case True
    then show ?thesis using mem rj(2) by simp
  next
    case False
    with that have "k \<in> dom (timestamps_of ord)" by auto
    from old [OF this] show ?thesis by simp
  qed
  then show ?thesis
    unfolding wf_order_def using mem rj(2) by (simp add: timestamps_of_def)
qed

lemma update_preserves_wf:
  assumes wf: "\<forall>x \<in> set (orders db). wf_order x"
  shows "\<forall>x \<in> set (orders (snd (tracking_update_order_status e db order_id new_status u))).
           wf_order x"
proof -
  consider (same) "snd (tracking_update_order_status e db order_id new_status u) = db"
    | (upd) ord j where
        "single (filter (\<lambda>row. o_id row = order_id) (orders db)) = Some ord"
        "list_index tracking_ORDER_STATUSES (o_status ord) = Some j"
        "list_index tracking_ORDER_STATUSES new_status = Some (Suc j)"
        "snd (tracking_update_order_status e db order_id new_status u) =
           db\<lparr>orders := update_orders order_id new_status
              ((timestamps_of ord)(new_status \<mapsto> utcnow e)) (orders db)\<rparr>"
    using update_cases [of e db order_id new_status u] by auto
  then show ?thesis
  proof cases
    case same
    then show ?thesis using wf by simp
  next
    case upd
    from single_filter_Some_mem [OF upd(1)] have ord: "ord \<in> set (orders db)"
      by simp
    then have "wf_order ord" using wf by blast
    note adv = wf_order_advance [OF this upd(2,3), where t = "utcnow e"]
    show ?thesis
      unfolding upd(4) using wf adv by (auto simp: update_orders_def)
  qed
qed

lemma group_items_lookup:
  "(case group_items m items k of None \<Rightarrow> [] | Some l \<Rightarrow> l) =
   (case m k of None \<Rightarrow> [] | Some l \<Rightarrow> l) @ filter (\<lambda>i. i_order_id i = k) items"
  by (induction items arbitrary: m) simp_all

lemma attach_items:
  assumes "row \<in> set data"
  shows "(case group_items Map.empty
            (filter (\<lambda>i. i_order_id i \<in> set (map o_id data)) all_items) (o_id row) of
          None \<Rightarrow> [] | Some l \<Rightarrow> l) =
         filter (\<lambda>i. i_order_id i = o_id row) all_items"
proof -
  have "filter (\<lambda>i. i_order_id i = o_id row)
          (filter (\<lambda>i. i_order_id i \<in> set (map o_id data)) all_items) =
        filter (\<lambda>i. i_order_id i = o_id row) all_items"
    using assms by (auto intro: filter_cong)
  then show ?thesis
    by (simp add: group_items_lookup)
qed

lemma attach_all:
  "(if data = [] then Inr []
    else (let order_ids = map o_id data;
              items = filter (\<lambda>i. i_order_id i \<in> set order_ids) all_items;
              items_by_order = group_items Map.empty items
          in Inr (map (\<lambda>row. (row, case items_by_order (o_id row) of
                                   None \<Rightarrow> [] | Some l \<Rightarrow> l)) data))) =
   (Inr (map (\<lambda>row. (row, filter (\<lambda>i. i_order_id i = o_id row) all_items)) data)
      :: error + (order \<times> order_item list) list)"
proof (cases "data = []")
  case True
  then show ?thesis by simp
next
  case False
  have "map (\<lambda>row. (row, case group_items Map.empty
            (filter (\<lambda>i. i_order_id i \<in> set (map o_id data)) all_items) (o_id row) of
          None \<Rightarrow> [] | Some l \<Rightarrow> l)) data =
        map (\<lambda>row. (row, filter (\<lambda>i. i_order_id i = o_id row) all_items)) data"
    by (rule map_cong) (simp_all only: attach_items)
  then show ?thesis
    using False by (simp add: Let_def)
qed

lemma get_orders_closed_form:
  assumes "sub u = Some s"
  shows "tracking_get_orders db user_id u =
     (if s \<noteq> user_id \<and> role u \<noteq> Some ''seller'' then Inl (HTTPException 403 ''Forbidden'')
      else if role u = Some ''buyer''
      then Inr (map (\<lambda>row. (row, filter (\<lambda>i. i_order_id i = o_id row) (order_items db)))
                  (filter (\<lambda>row. o_buyer_id row = user_id) (orders db)))
      else if role u = Some ''seller''
      then Inr (map (\<lambda>row. (row, filter (\<lambda>i. i_order_id i = o_id row) (order_items db)))
                  (filter (\<lambda>row. o_seller_id row = user_id) (orders db)))
      else Inl (HTTPException 403 ''Invalid role''))"
  unfolding tracking_get_orders_def using assms
  by (simp add: attach_all)

lemma split_str_nonempty: "split_str sep s \<noteq> []"
  by (induction s) (auto split: list.splits)

lemma split_str_no_sep: "sep \<notin> set s \<Longrightarrow> split_str sep s = [s]"
  by (induction s) auto

lemma split_str_append:
  "sep \<notin> set a \<Longrightarrow> split_str sep (a @ sep # b) = a # split_str sep b"
  by (induction a) auto

lemma split_str_two:
  assumes "sep \<notin> set a" and "sep \<notin> set b"
  shows "split_str sep (a @ [sep] @ b) = [a, b]"
  using assms by (simp add: split_str_append split_str_no_sep)

lemma length_split_str: "length (split_str sep s) = Suc (count_list s sep)"
proof (induction s)
  case Nil
  then show ?case by simp
next
  case (Cons c s)
  then show ?case
    using split_str_nonempty [of sep s] by (auto split: list.splits)
qed

lemma range_rows_page:
  assumes "0 \<le> offset" and "1 \<le> limit"
  shows "range_rows offset (offset + limit - 1) rows = take (nat limit) (drop (nat offset) rows)"
  using assms by (simp add: range_rows_def)

lemma get_messages_checked:
  assumes "limit = (case limit_q of None \<Rightarrow> 50 | Some l \<Rightarrow> l)"
    and "offset = (case offset_q of None \<Rightarrow> 0 | Some k \<Rightarrow> k)"
    and "1 \<le> limit" and "limit \<le> 100" and "0 \<le> offset"
  shows "get_messages e db conversation_id u limit_q offset_q =
     (let user_ids = split_str CHR ''_'' conversation_id
      in if length user_ids \<noteq> 2 then Inl (HTTPException 400 ''Invalid conversation_id'')
         else (case sub u of
                 None \<Rightarrow> Inl (KeyError ''sub'')
               | Some s \<Rightarrow>
                   if s \<notin> set user_ids then Inl (HTTPException 403 ''Forbidden'')
                   else (case select_error e of
                           Some err \<Rightarrow> Inl (HTTPException 500 ''Failed to fetch messages'')
                         | None \<Rightarrow>
                             Inr (take (nat limit) (drop (nat offset)
                               (order_by_timestamp
                                  (or_rows (filter_text (user_ids ! 0) (user_ids ! 1))
                                     (messages db))))))))"
proof -
  have v: "\<not> (limit < 1 \<or> 100 < limit)" "\<not> offset < 0"
    using assms(3-5) by auto
  show ?thesis
    unfolding get_messages_def assms(1) [symmetric] assms(2) [symmetric] Let_def
    using v by (simp add: range_rows_page [OF assms(5,3)] split: option.splits)
qed

lemma order_by_timestamp_sorted: "sorted (map m_timestamp (order_by_timestamp rows))"
  by (simp add: order_by_timestamp_def)

lemma order_by_timestamp_mset: "mset (order_by_timestamp rows) = mset rows"
  by (simp add: order_by_timestamp_def)

lemma sorted_take_drop:
  "sorted (map f xs) \<Longrightarrow> sorted (map f (take n (drop k xs)))"
  by (simp add: take_map [symmetric] drop_map [symmetric] sorted_wrt_take sorted_wrt_drop)

lemma takeWhile_stop: "\<forall>x \<in> set a. P x \<Longrightarrow> \<not> P c \<Longrightarrow> takeWhile P (a @ c # r) = a"
  by (induction a) auto

lemma dropWhile_stop: "\<forall>x \<in> set a. P x \<Longrightarrow> \<not> P c \<Longrightarrow> dropWhile P (a @ c # r) = c # r"
  by (induction a) auto

lemma plain_value: "plain_id a \<Longrightarrow> \<forall>x \<in> set a. value_char x"
  by (auto simp: plain_id_def value_char_def list_all_iff)

lemma parse_filter_sender:
  "parse_filter (''sender_id.eq.'' @ v) =
     Some (Filter ''sender_id'' ''eq'' (takeWhile value_char v), dropWhile value_char v)"
  by (simp add: parse_filter_def field_char_def)

lemma parse_filter_receiver:
  "parse_filter (''receiver_id.eq.'' @ v) =
     Some (Filter ''receiver_id'' ''eq'' (takeWhile value_char v), dropWhile value_char v)"
  by (simp add: parse_filter_def field_char_def)

lemma parse_pair:
  assumes a: "plain_id a" and b: "plain_id b"
  shows "parse_tree (Suc (Suc (Suc (Suc n))))
           (''and(sender_id.eq.'' @ a @ '',receiver_id.eq.'' @ b @ CHR '')'' # r) =
         Some (And [Filter ''sender_id'' ''eq'' a, Filter ''receiver_id'' ''eq'' b], r)"
proof -
  have stop: "\<not> value_char CHR '')''" "\<not> value_char CHR '',''"
    by (simp_all add: value_char_def)
  have r: "parse_tree (Suc n) (''receiver_id.eq.'' @ b @ CHR '')'' # r) =
      Some (Filter ''receiver_id'' ''eq'' b, CHR '')'' # r)"
    using parse_filter_receiver [of "b @ CHR '')'' # r"]
      takeWhile_stop [OF plain_value [OF b] stop(1), of r]
      dropWhile_stop [OF plain_value [OF b] stop(1), of r]
    by simp
  have s: "parse_tree (Suc (Suc n)) (''sender_id.eq.'' @ a @ '',receiver_id.eq.'' @ b @ CHR '')'' # r) =
      Some (Filter ''sender_id'' ''eq'' a, '',receiver_id.eq.'' @ b @ CHR '')'' # r)"
    using parse_filter_sender [of "a @ '',receiver_id.eq.'' @ b @ CHR '')'' # r"]
      takeWhile_stop [OF plain_value [OF a] stop(2), of "''receiver_id.eq.'' @ b @ CHR '')'' # r"]
      dropWhile_stop [OF plain_value [OF a] stop(2), of "''receiver_id.eq.'' @ b @ CHR '')'' # r"]
    by simp
  have l1: "parse_list (Suc (Suc n)) (''receiver_id.eq.'' @ b @ CHR '')'' # r) =
      Some ([Filter ''receiver_id'' ''eq'' b], CHR '')'' # r)"
    using r by simp
  have l2: "parse_list (Suc (Suc (Suc n))) (''sender_id.eq.'' @ a @ '',receiver_id.eq.'' @ b @ CHR '')'' # r) =
      Some ([Filter ''sender_id'' ''eq'' a, Filter ''receiver_id'' ''eq'' b], CHR '')'' # r)"
    using s l1 by simp
  show ?thesis
    using l2 by simp
qed

lemma read_or_plain:
  assumes a: "plain_id a" and b: "plain_id b"
  shows "read_or (filter_text a b) =
     Some (Or [And [Filter ''sender_id'' ''eq'' a, Filter ''receiver_id'' ''eq'' b],
               And [Filter ''sender_id'' ''eq'' b, Filter ''receiver_id'' ''eq'' a]])"
proof -
  define n where "n = 2 * length a + 2 * length b + 66"
  have len: "length (''or('' @ filter_text a b @ '')'') = Suc (Suc (Suc (Suc (Suc (Suc (Suc n))))))"
    by (simp add: filter_text_def n_def)
  have p2: "parse_tree (Suc (Suc (Suc (Suc n))))
      (''and(sender_id.eq.'' @ b @ '',receiver_id.eq.'' @ a @ CHR '')'' # '')'') =
      Some (And [Filter ''sender_id'' ''eq'' b, Filter ''receiver_id'' ''eq'' a], '')'')"
    by (rule parse_pair [OF b a])
  have l2: "parse_list (Suc (Suc (Suc (Suc (Suc n)))))
      (''and(sender_id.eq.'' @ b @ '',receiver_id.eq.'' @ a @ CHR '')'' # '')'') =
      Some ([And [Filter ''sender_id'' ''eq'' b, Filter ''receiver_id'' ''eq'' a]], '')'')"
    using p2 by (simp del: parse_tree.simps)
  have p1: "parse_tree (Suc (Suc (Suc (Suc (Suc n)))))
      (''and(sender_id.eq.'' @ a @ '',receiver_id.eq.'' @ b @ CHR '')'' #
         '',and(sender_id.eq.'' @ b @ '',receiver_id.eq.'' @ a @ CHR '')'' # '')'') =
      Some (And [Filter ''sender_id'' ''eq'' a, Filter ''receiver_id'' ''eq'' b],
        '',and(sender_id.eq.'' @ b @ '',receiver_id.eq.'' @ a @ CHR '')'' # '')'')"
    by (rule parse_pair [OF a b])
  have l1: "parse_list (Suc (Suc (Suc (Suc (Suc (Suc n))))))
      (''and(sender_id.eq.'' @ a @ '',receiver_id.eq.'' @ b @ CHR '')'' #
         '',and(sender_id.eq.'' @ b @ '',receiver_id.eq.'' @ a @ CHR '')'' # '')'') =
      Some ([And [Filter ''sender_id'' ''eq'' a, Filter ''receiver_id'' ''eq'' b],
             And [Filter ''sender_id'' ''eq'' b, Filter ''receiver_id'' ''eq'' a]], '')'')"
    using p1 l2 by (simp del: parse_tree.simps)
  have top: "parse_tree (Suc (Suc (Suc (Suc (Suc (Suc (Suc n)))))))
      (''or('' @ filter_text a b @ '')'') =
      Some (Or [And [Filter ''sender_id'' ''eq'' a, Filter ''receiver_id'' ''eq'' b],
             And [Filter ''sender_id'' ''eq'' b, Filter ''receiver_id'' ''eq'' a]], [])"
    using l1 by (simp add: filter_text_def del: parse_list.simps)
  show ?thesis
    unfolding read_or_def Let_def len using top by (simp del: parse_tree.simps)
qed

lemma or_rows_plain:
  assumes "plain_id a" and "plain_id b"
  shows "or_rows (filter_text a b) rows = filter (conversation_filter a b) rows"
proof -
  have "holds (Or [And [Filter ''sender_id'' ''eq'' a, Filter ''receiver_id'' ''eq'' b],
               And [Filter ''sender_id'' ''eq'' b, Filter ''receiver_id'' ''eq'' a]]) =
        conversation_filter a b"
    by (rule ext) (simp add: read_filter_def conversation_filter_def)
  moreover have "readable (Or [And [Filter ''sender_id'' ''eq'' a, Filter ''receiver_id'' ''eq'' b],
               And [Filter ''sender_id'' ''eq'' b, Filter ''receiver_id'' ''eq'' a]])"
    by (simp add: read_filter_def)
  ultimately show ?thesis
    unfolding or_rows_def read_or_plain [OF assms] by simp
qed

lemma or_rows_subset: "set (or_rows text rows) \<subseteq> set rows"
  by (auto simp: or_rows_def split: option.splits)

lemma injected_text:
  "read_or (filter_text ''alice'' ''bob),id.gt.0,and(id.gt.0'') =
     Some (Or [And [Filter ''sender_id'' ''eq'' ''alice'', Filter ''receiver_id'' ''eq'' ''bob''],
               Filter ''id'' ''gt'' ''0'',
               And [Filter ''id'' ''gt'' ''0''],
               And [Filter ''sender_id'' ''eq'' ''bob''],
               Filter ''id'' ''gt'' ''0'',
               And [Filter ''id'' ''gt'' ''0'', Filter ''receiver_id'' ''eq'' ''alice'']])"
  by (simp add: read_or_def filter_text_def parse_filter_def field_char_def value_char_def)

lemma injected_rows:
  "or_rows (filter_text ''alice'' ''bob),id.gt.0,and(id.gt.0'') rows =
     filter (\<lambda>m. (m_sender_id m = ''alice'' \<and> m_receiver_id m = ''bob'') \<or> 0 < m_id m \<or>
                  m_sender_id m = ''bob'' \<or> (0 < m_id m \<and> m_receiver_id m = ''alice'')) rows"
  unfolding or_rows_def injected_text
  by (auto simp: read_filter_def compare_op_def parse_int_def intro: filter_cong)

lemma send_message_same_lang:
  assumes "sub u = Some sender" and "insert_error e = None"
    and "lang_of (single (filter (\<lambda>p. p_id p = sender) (profiles db))) =
         lang_of (single (filter (\<lambda>p. p_id p = receiver_id) (profiles db)))"
  shows "send_message e db receiver_id msg u =
     (Inr ''Message sent'',
      db\<lparr>messages := messages db @
         [\<lparr>m_id = store_id e, m_sender_id = sender, m_receiver_id = receiver_id,
           m_message = msg, m_translated_message = JNull, m_timestamp = store_now e\<rparr>]\<rparr>,
      [])"
  using assms by (simp add: send_message_def Let_def)

lemma translate_text_cases:
  assumes "req = \<lparr>q = msg, target = rl,
                 source = (if sl \<noteq> None \<and> sl \<noteq> Some [] then sl else None)\<rparr>"
  shows "translate_text e msg rl sl =
     (case http_post e req of
        Inl err \<Rightarrow> (Inl err, [req])
      | Inr resp \<Rightarrow>
          if status_code resp = 200 then (translated_text resp, [req]) else (Inr JNull, [req]))"
  unfolding translate_text_def assms by (auto simp: Let_def split: sum.splits)

lemma send_message_other_lang:
  assumes "sub u = Some sender" and "insert_error e = None"
    and "sl = lang_of (single (filter (\<lambda>p. p_id p = sender) (profiles db)))"
    and "rl = lang_of (single (filter (\<lambda>p. p_id p = receiver_id) (profiles db)))"
    and "sl \<noteq> rl"
  shows "send_message e db receiver_id msg u =
      (case fst (translate_text e msg rl sl) of
         Inl err \<Rightarrow> (Inl err, db, snd (translate_text e msg rl sl))
       | Inr translated_message \<Rightarrow>
           (Inr ''Message sent'',
            db\<lparr>messages := messages db @
               [\<lparr>m_id = store_id e, m_sender_id = sender, m_receiver_id = receiver_id,
                 m_message = msg, m_translated_message = translated_message,
                 m_timestamp = store_now e\<rparr>]\<rparr>,
            snd (translate_text e msg rl sl)))"
  using assms(1,2,5) unfolding assms(3,4)
  by (simp add: send_message_def Let_def split: sum.splits)

lemma plain_demo: "plain_id ''alice''" "plain_id ''bob''" "plain_id ''carol''"
  by (simp_all add: plain_id_def)

lemma get_messages_page:
  assumes a: "CHR ''_'' \<notin> set a" and b: "CHR ''_'' \<notin> set b"
    and pa: "plain_id a" and pb: "plain_id b"
    and sub: "sub u = Some s" and mem: "s = a \<or> s = b"
    and limit: "limit = (case limit_q of None \<Rightarrow> 50 | Some l \<Rightarrow> l)"
    and offset: "offset = (case offset_q of None \<Rightarrow> 0 | Some k \<Rightarrow> k)"
    and valid: "1 \<le> limit" "limit \<le> 100" "0 \<le> offset"
    and sel: "select_error e = None"
  shows "\<exists>conv rows.
           get_messages e db (a @ ''_'' @ b) u limit_q offset_q = Inr rows \<and>
           mset conv = mset (filter (\<lambda>m. (m_sender_id m = a \<and> m_receiver_id m = b) \<or>
                                         (m_sender_id m = b \<and> m_receiver_id m = a)) (messages db)) \<and>
           sorted (map m_timestamp conv) \<and>
           rows = take (nat limit) (drop (nat offset) conv) \<and>
           sorted (map m_timestamp rows) \<and>
           set rows \<subseteq> set (messages db) \<and>
           length rows \<le> nat limit"
proof -
  define sel_rows where "sel_rows = or_rows (filter_text a b) (messages db)"
  define conv where "conv = order_by_timestamp sel_rows"
  define rows where "rows = take (nat limit) (drop (nat offset) conv)"
  have ids: "split_str CHR ''_'' (a @ ''_'' @ b) = [a, b]"
    using split_str_two [OF a b] by simp
  have res: "get_messages e db (a @ ''_'' @ b) u limit_q offset_q = Inr rows"
    unfolding get_messages_checked [OF limit offset valid] ids Let_def
    using sub mem sel by (auto simp: rows_def conv_def sel_rows_def)
  have f: "sel_rows = filter (\<lambda>m. (m_sender_id m = a \<and> m_receiver_id m = b) \<or>
                                         (m_sender_id m = b \<and> m_receiver_id m = a)) (messages db)"
    unfolding sel_rows_def or_rows_plain [OF pa pb] conversation_filter_def ..
  have m: "mset conv = mset sel_rows"
    unfolding conv_def by (rule order_by_timestamp_mset)
  have s: "sorted (map m_timestamp conv)"
    unfolding conv_def by (rule order_by_timestamp_sorted)
  have sr: "sorted (map m_timestamp rows)"
    unfolding rows_def using s by (rule sorted_take_drop)
  have "set conv = set sel_rows"
    using m by (rule mset_eq_setD)
  then have "set conv \<subseteq> set (messages db)"
    unfolding sel_rows_def using or_rows_subset by auto
  moreover have "set rows \<subseteq> set conv"
    unfolding rows_def by (meson set_take_subset set_drop_subset subset_trans)
  ultimately have sub_rows: "set rows \<subseteq> set (messages db)"
    by (rule subset_trans [rotated])
  have len: "length rows \<le> nat limit"
    unfolding rows_def by simp
  have "get_messages e db (a @ ''_'' @ b) u limit_q offset_q = Inr rows \<and>
           mset conv = mset (filter (\<lambda>m. (m_sender_id m = a \<and> m_receiver_id m = b) \<or>
                                         (m_sender_id m = b \<and> m_receiver_id m = a)) (messages db)) \<and>
           sorted (map m_timestamp conv) \<and>
           rows = take (nat limit) (drop (nat offset) conv) \<and>
           sorted (map m_timestamp rows) \<and>
           set rows \<subseteq> set (messages db) \<and>
           length rows \<le> nat limit"
    using res m s sr sub_rows len unfolding f [symmetric] rows_def [symmetric] by simp
  then show ?thesis
    by (intro exI [of _ conv] exI [of _ rows])
qed

lemmas demo_defs = demo_store_def demo_order_def demo_cancelled_order_def
  demo_delivered_order_def demo_env_def demo_seller_def demo_buyer_def demo_other_seller_def
  demo_calls_def demo_items_def demo_messages_def demo_env_down_def
  demo_env_unreachable_def demo_env_empty_def

section \<open>Status transitions\<close>

text \<open>
  C1. For an existing order and its seller, with a stored status of the list and a store
  that accepts the write: a \<open>new_status\<close> of the list succeeds exactly when its index
  is the index of the current status plus one; any other \<open>new_status\<close> of the list is
  rejected with 400 "Invalid status transition", a \<open>new_status\<close> outside the list
  with 400 "Invalid status", and both rejections leave the store as it was. This holds
  for the handler of order_tracking.py and for the one of main.py.
\<close>

theorem update_status_single_step:
  assumes h: "h = tracking_update_order_status \<or> h = main_update_order_status"
    and pk: "distinct (map o_id (orders db))"
    and ord: "ord \<in> set (orders db)"
    and seller: "role u = Some ''seller''" "sub u = Some (o_seller_id ord)"
    and cur: "o_status ord \<in> set tracking_ORDER_STATUSES"
    and upd: "update_error e = None"
  shows "(new_status \<in> set tracking_ORDER_STATUSES \<longrightarrow>
           ((\<exists>r. fst (h e db (o_id ord) new_status u) = Inr r) \<longleftrightarrow>
            the (list_index tracking_ORDER_STATUSES new_status) =
              the (list_index tracking_ORDER_STATUSES (o_status ord)) + 1)) \<and>
         (new_status \<in> set tracking_ORDER_STATUSES \<and>
          the (list_index tracking_ORDER_STATUSES new_status) \<noteq>
            the (list_index tracking_ORDER_STATUSES (o_status ord)) + 1 \<longrightarrow>
            h e db (o_id ord) new_status u =
              (Inl (HTTPException 400 ''Invalid status transition''), db)) \<and>
         (new_status \<notin> set tracking_ORDER_STATUSES \<longrightarrow>
            h e db (o_id ord) new_status u = (Inl (HTTPException 400 ''Invalid status''), db))"
proof -
  have heq: "h = tracking_update_order_status"
    using h main_update_order_status_eq by auto
  obtain j where j: "list_index tracking_ORDER_STATUSES (o_status ord) = Some j"
    using cur list_index_None_iff [of tracking_ORDER_STATUSES "o_status ord"] by auto
  note found = single_filter_distinct [OF pk ord]
  show ?thesis
    unfolding heq update_authorized [OF seller(1) found seller(2)]
    using j upd by simp
qed

theorem update_status_single_step_witness:
  "fst (tracking_update_order_status demo_env demo_store 7 ''Out for Delivery'' demo_seller) =
     Inr \<lparr>r_message = ''Order status updated'', r_order_id = 7,
          r_new_status = ''Out for Delivery''\<rparr> \<and>
   tracking_update_order_status demo_env demo_store 7 ''Delivered'' demo_seller =
     (Inl (HTTPException 400 ''Invalid status transition''), demo_store) \<and>
   tracking_update_order_status demo_env demo_store 7 ''Cancelled'' demo_seller =
     (Inl (HTTPException 400 ''Invalid status''), demo_store)"
proof -
  have pk: "distinct (map o_id (orders demo_store))"
    by (simp add: demo_store_def demo_order_def demo_cancelled_order_def demo_delivered_order_def)
  have ord: "demo_order \<in> set (orders demo_store)"
    by (simp add: demo_store_def)
  have seller: "role demo_seller = Some ''seller''" "sub demo_seller = Some (o_seller_id demo_order)"
    by (simp_all add: demo_seller_def demo_order_def)
  have cur: "o_status demo_order \<in> set tracking_ORDER_STATUSES"
    by (simp add: demo_order_def tracking_ORDER_STATUSES_def)
  have upd: "update_error demo_env = None"
    by (simp add: demo_env_def)
  have id7: "o_id demo_order = 7"
    by (simp add: demo_order_def)
  note th = update_status_single_step [OF disjI1 [OF refl] pk ord seller cur upd]
  have b: "''Delivered'' \<in> set tracking_ORDER_STATUSES"
       "the (list_index tracking_ORDER_STATUSES ''Delivered'') \<noteq>
          the (list_index tracking_ORDER_STATUSES (o_status demo_order)) + 1"
    by (simp_all add: tracking_ORDER_STATUSES_def demo_order_def)
  have c: "''Cancelled'' \<notin> set tracking_ORDER_STATUSES"
    by (simp add: tracking_ORDER_STATUSES_def)
  have r': "fst (tracking_update_order_status demo_env demo_store 7 ''Out for Delivery'' demo_seller) =
     Inr \<lparr>r_message = ''Order status updated'', r_order_id = 7,
          r_new_status = ''Out for Delivery''\<rparr>"
    by (simp add: tracking_update_order_status_def demo_env_def demo_store_def demo_seller_def
        demo_order_def demo_cancelled_order_def demo_delivered_order_def single_def tracking_ORDER_STATUSES_def)
  show ?thesis
    using th [of "''Delivered''"] th [of "''Cancelled''"] b c r'
    unfolding id7 by simp
qed

text \<open>
  C2. A caller whose role is not "seller" gets 403 whatever the store holds; a seller
  asking for an order id that no row carries gets 404; a seller other than the order's
  own gets 403. None of the three depends on \<open>new_status\<close>, and the store is left as
  it was. This holds for both copies of the handler.
\<close>

theorem update_status_authorization:
  assumes h: "h = tracking_update_order_status \<or> h = main_update_order_status"
  shows "(role u \<noteq> Some ''seller'' \<longrightarrow>
            h e db order_id new_status u =
              (Inl (HTTPException 403 ''Only sellers can update order status''), db)) \<and>
         (role u = Some ''seller'' \<and> order_id \<notin> o_id ` set (orders db) \<longrightarrow>
            h e db order_id new_status u = (Inl (HTTPException 404 ''Order not found''), db)) \<and>
         (role u = Some ''seller'' \<and> distinct (map o_id (orders db)) \<and>
          ord \<in> set (orders db) \<and> o_id ord = order_id \<and>
          sub u = Some s \<and> s \<noteq> o_seller_id ord \<longrightarrow>
            h e db order_id new_status u =
              (Inl (HTTPException 403 ''You can only update your own orders''), db))"
proof -
  have heq: "h = tracking_update_order_status"
    using h main_update_order_status_eq by auto
  have a: "role u \<noteq> Some ''seller'' \<Longrightarrow>
      tracking_update_order_status e db order_id new_status u =
        (Inl (HTTPException 403 ''Only sellers can update order status''), db)"
    by (simp add: tracking_update_order_status_def)
  have b: "role u = Some ''seller'' \<Longrightarrow> order_id \<notin> o_id ` set (orders db) \<Longrightarrow>
      tracking_update_order_status e db order_id new_status u =
        (Inl (HTTPException 404 ''Order not found''), db)"
    using single_filter_None_iff [of order_id "orders db"]
    by (simp add: tracking_update_order_status_def)
  have c: "role u = Some ''seller'' \<Longrightarrow> distinct (map o_id (orders db)) \<Longrightarrow>
      ord \<in> set (orders db) \<Longrightarrow> o_id ord = order_id \<Longrightarrow> sub u = Some s \<Longrightarrow>
      s \<noteq> o_seller_id ord \<Longrightarrow>
      tracking_update_order_status e db order_id new_status u =
        (Inl (HTTPException 403 ''You can only update your own orders''), db)"
    using single_filter_distinct [of "orders db" ord]
    by (auto simp: tracking_update_order_status_def)
  show ?thesis
    unfolding heq using a b c by blast
qed

theorem update_status_authorization_witness:
  "tracking_update_order_status demo_env demo_store 7 ''Out for Delivery'' demo_buyer =
     (Inl (HTTPException 403 ''Only sellers can update order status''), demo_store) \<and>
   tracking_update_order_status demo_env demo_store 8 ''Out for Delivery'' demo_seller =
     (Inl (HTTPException 404 ''Order not found''), demo_store) \<and>
   tracking_update_order_status demo_env demo_store 7 ''Out for Delivery'' demo_other_seller =
     (Inl (HTTPException 403 ''You can only update your own orders''), demo_store)"
proof -
  note th = update_status_authorization [OF disjI1 [OF refl], of _ demo_env demo_store _
      "''Out for Delivery''" demo_order]
  have a: "role demo_buyer \<noteq> Some ''seller''"
    by (simp add: demo_buyer_def)
  have b: "role demo_seller = Some ''seller''" "8 \<notin> o_id ` set (orders demo_store)"
    by (simp_all add: demo_seller_def demo_store_def demo_order_def demo_cancelled_order_def demo_delivered_order_def)
  have c: "role demo_other_seller = Some ''seller''" "distinct (map o_id (orders demo_store))"
    "demo_order \<in> set (orders demo_store)" "o_id demo_order = 7"
    "sub demo_other_seller = Some ''carol''" "''carol'' \<noteq> o_seller_id demo_order"
    by (simp_all add: demo_other_seller_def demo_store_def demo_order_def demo_cancelled_order_def demo_delivered_order_def)
  show ?thesis
    using th [of demo_buyer 7 "''carol''"] th [of demo_seller 8 "''carol''"]
      th [of demo_other_seller 7 "''carol''"] a b c
    by simp
qed

text \<open>
  C10. The handler checks that \<open>new_status\<close> is in the list, never that the stored
  status is: \<open>index\<close> of the stored status is defined exactly when that status is one
  of the four, and for an order whose stored status is outside the list an authorised
  request with a valid \<open>new_status\<close> ends in the uncaught ValueError, not in any HTTP
  error; with a stored status of the list no ValueError arises.
\<close>

theorem stored_status_outside_list:
  assumes h: "h = tracking_update_order_status \<or> h = main_update_order_status"
    and pk: "distinct (map o_id (orders db))"
    and ord: "ord \<in> set (orders db)"
    and seller: "role u = Some ''seller''" "sub u = Some (o_seller_id ord)"
    and new: "new_status \<in> set tracking_ORDER_STATUSES"
  shows "(list_index tracking_ORDER_STATUSES (o_status ord) = None \<longleftrightarrow>
            o_status ord \<notin> set tracking_ORDER_STATUSES) \<and>
         (o_status ord \<notin> set tracking_ORDER_STATUSES \<longrightarrow>
            h e db (o_id ord) new_status u = (Inl (ValueError (o_status ord)), db)) \<and>
         (o_status ord \<in> set tracking_ORDER_STATUSES \<longrightarrow>
            (\<forall>x. fst (h e db (o_id ord) new_status u) \<noteq> Inl (ValueError x)))"
proof -
  have heq: "h = tracking_update_order_status"
    using h main_update_order_status_eq by auto
  note found = single_filter_distinct [OF pk ord]
  note auth = update_authorized [OF seller(1) found seller(2)]
  have a: "list_index tracking_ORDER_STATUSES (o_status ord) = None \<longleftrightarrow>
            o_status ord \<notin> set tracking_ORDER_STATUSES"
    by (rule list_index_None_iff)
  have b: "o_status ord \<notin> set tracking_ORDER_STATUSES \<Longrightarrow>
      tracking_update_order_status e db (o_id ord) new_status u =
        (Inl (ValueError (o_status ord)), db)"
    unfolding auth using new a by simp
  have c: "o_status ord \<in> set tracking_ORDER_STATUSES \<Longrightarrow>
      fst (tracking_update_order_status e db (o_id ord) new_status u) \<noteq> Inl (ValueError x)" for x
    unfolding auth using new a by (auto split: option.splits)
  show ?thesis
    unfolding heq using a b c by blast
qed

theorem stored_status_outside_list_witness:
  "list_index tracking_ORDER_STATUSES ''Cancelled'' = None \<and>
   tracking_update_order_status demo_env demo_store 9 ''Placed'' demo_seller =
     (Inl (ValueError ''Cancelled''), demo_store) \<and>
   fst (tracking_update_order_status demo_env demo_store 7 ''Placed'' demo_seller) =
     Inl (HTTPException 400 ''Invalid status transition'')"
proof -
  have pk: "distinct (map o_id (orders demo_store))"
    by (simp add: demo_store_def demo_order_def demo_cancelled_order_def demo_delivered_order_def)
  have ord: "demo_cancelled_order \<in> set (orders demo_store)"
    by (simp add: demo_store_def)
  have seller: "role demo_seller = Some ''seller''"
    "sub demo_seller = Some (o_seller_id demo_cancelled_order)"
    by (simp_all add: demo_seller_def demo_cancelled_order_def demo_delivered_order_def)
  have new: "''Placed'' \<in> set tracking_ORDER_STATUSES"
    by (simp add: tracking_ORDER_STATUSES_def)
  have out: "o_status demo_cancelled_order \<notin> set tracking_ORDER_STATUSES"
    "o_status demo_cancelled_order = ''Cancelled''" "o_id demo_cancelled_order = 9"
    by (simp_all add: demo_cancelled_order_def demo_delivered_order_def tracking_ORDER_STATUSES_def)
  have other: "fst (tracking_update_order_status demo_env demo_store 7 ''Placed'' demo_seller) =
     Inl (HTTPException 400 ''Invalid status transition'')"
    by (simp add: tracking_update_order_status_def demo_env_def demo_store_def demo_seller_def
        demo_order_def demo_cancelled_order_def demo_delivered_order_def single_def tracking_ORDER_STATUSES_def)
  show ?thesis
    using stored_status_outside_list [OF disjI1 [OF refl] pk ord seller new, of demo_env] out other
    by simp
qed

section \<open>What an update writes, and what it never undoes\<close>

text \<open>
  C3. After a successful status update the stored order has the new status, and its
  timestamps are the former ones with the key \<open>new_status\<close> set to the current UTC
  time: the keys are the former keys plus \<open>new_status\<close>, and every other key keeps its
  value. For an order that carries timestamps only for statuses it has reached
  (\<open>wf_order\<close>, which updates preserve), \<open>new_status\<close> is a new key, so every key
  present before keeps its value. No call of the handler, successful or not, removes a
  key from an order's timestamps, and sending a message leaves the orders as they are.
  This holds for both copies of the handler; order ids are a primary key.
\<close>

theorem successful_update_effect:
  assumes h: "h = tracking_update_order_status \<or> h = main_update_order_status"
    and pk: "distinct (map o_id (orders db))"
    and ord: "ord \<in> set (orders db)"
  shows "(h e db (o_id ord) new_status u = (Inr r, db') \<longrightarrow>
           (\<exists>ord'. orders db' = map (\<lambda>row. if row = ord then ord' else row) (orders db) \<and>
              o_id ord' = o_id ord \<and>
              o_status ord' = new_status \<and>
              timestamps_of ord' new_status = Some (utcnow e) \<and>
              dom (timestamps_of ord') = insert new_status (dom (timestamps_of ord)) \<and>
              (\<forall>k. k \<noteq> new_status \<longrightarrow> timestamps_of ord' k = timestamps_of ord k) \<and>
              (wf_order ord \<longrightarrow> new_status \<notin> dom (timestamps_of ord) \<and>
                 (\<forall>k \<in> dom (timestamps_of ord). timestamps_of ord' k = timestamps_of ord k)))) \<and>
         (\<exists>x' \<in> set (orders (snd (h e db order_id new_status u))).
            o_id x' = o_id ord \<and> dom (timestamps_of ord) \<subseteq> dom (timestamps_of x')) \<and>
         orders (fst (snd (send_message e db receiver_id msg u))) = orders db"
proof -
  have heq: "h = tracking_update_order_status"
    using h main_update_order_status_eq by auto
  show ?thesis
    unfolding heq
  proof (intro conjI impI)
    assume "tracking_update_order_status e db (o_id ord) new_status u = (Inr r, db')"
    then show "\<exists>ord'. orders db' = map (\<lambda>row. if row = ord then ord' else row) (orders db) \<and>
              o_id ord' = o_id ord \<and>
              o_status ord' = new_status \<and>
              timestamps_of ord' new_status = Some (utcnow e) \<and>
              dom (timestamps_of ord') = insert new_status (dom (timestamps_of ord)) \<and>
              (\<forall>k. k \<noteq> new_status \<longrightarrow> timestamps_of ord' k = timestamps_of ord k) \<and>
              (wf_order ord \<longrightarrow> new_status \<notin> dom (timestamps_of ord) \<and>
                 (\<forall>k \<in> dom (timestamps_of ord). timestamps_of ord' k = timestamps_of ord k))"
      by (rule update_success_effect [OF pk ord])
  next
    show "\<exists>x' \<in> set (orders (snd (tracking_update_order_status e db order_id new_status u))).
            o_id x' = o_id ord \<and> dom (timestamps_of ord) \<subseteq> dom (timestamps_of x')"
      by (rule update_keeps_keys [OF pk ord])
  next
    show "orders (fst (snd (send_message e db receiver_id msg u))) = orders db"
      by (rule send_message_orders)
  qed
qed

theorem successful_update_effect_witness:
  "wf_order demo_order \<and>
   (\<exists>ord'. ord' \<in> set (orders (snd (tracking_update_order_status demo_env demo_store 7
                                       ''Out for Delivery'' demo_seller))) \<and>
      o_id ord' = 7 \<and> o_status ord' = ''Out for Delivery'' \<and>
      timestamps_of ord' ''Out for Delivery'' = Some ''t2'' \<and>
      timestamps_of ord' ''Accepted'' = Some ''t1'' \<and>
      dom (timestamps_of ord') = {''Out for Delivery'', ''Accepted''})"
proof -
  let ?res = "tracking_update_order_status demo_env demo_store 7 ''Out for Delivery'' demo_seller"
  let ?r = "\<lparr>r_message = ''Order status updated'', r_order_id = 7,
             r_new_status = ''Out for Delivery''\<rparr>"
  have pk: "distinct (map o_id (orders demo_store))"
    by (simp add: demo_defs)
  have ord: "demo_order \<in> set (orders demo_store)"
    by (simp add: demo_defs)
  have id7: "o_id demo_order = 7"
    by (simp add: demo_order_def)
  have "fst ?res = Inr ?r"
    by (simp add: tracking_update_order_status_def demo_defs single_def
        tracking_ORDER_STATUSES_def update_orders_def)
  then have ok: "tracking_update_order_status demo_env demo_store (o_id demo_order)
      ''Out for Delivery'' demo_seller = (Inr ?r, snd ?res)"
    unfolding id7 by (simp add: prod_eq_iff)
  have dom0: "dom (timestamps_of demo_order) = {''Accepted''}"
    by (simp add: timestamps_of_def demo_order_def)
  have old: "timestamps_of demo_order ''Accepted'' = Some ''t1''"
    by (simp add: timestamps_of_def demo_order_def)
  have wf: "wf_order demo_order"
    unfolding wf_order_def dom0
    by (simp add: demo_order_def tracking_ORDER_STATUSES_def status_rank_def)
  have now: "utcnow demo_env = ''t2''"
    by (simp add: demo_env_def)
  note th = successful_update_effect [OF disjI1 [OF refl] pk ord, where e = demo_env
      and new_status = "''Out for Delivery''" and u = demo_seller and r = ?r and db' = "snd ?res"]
  from th [THEN conjunct1, THEN mp, OF ok] obtain ord' where
    c: "orders (snd ?res) = map (\<lambda>row. if row = demo_order then ord' else row) (orders demo_store) \<and>
      o_id ord' = o_id demo_order \<and>
      o_status ord' = ''Out for Delivery'' \<and>
      timestamps_of ord' ''Out for Delivery'' = Some (utcnow demo_env) \<and>
      dom (timestamps_of ord') = insert ''Out for Delivery'' (dom (timestamps_of demo_order)) \<and>
      (\<forall>k. k \<noteq> ''Out for Delivery'' \<longrightarrow> timestamps_of ord' k = timestamps_of demo_order k) \<and>
      (wf_order demo_order \<longrightarrow> ''Out for Delivery'' \<notin> dom (timestamps_of demo_order) \<and>
         (\<forall>k \<in> dom (timestamps_of demo_order). timestamps_of ord' k = timestamps_of demo_order k))"
    ..
  note rows = c [THEN conjunct1]
  note f1 = c [THEN conjunct2, THEN conjunct1]
  note f2 = c [THEN conjunct2, THEN conjunct2, THEN conjunct1]
  note f3 = c [THEN conjunct2, THEN conjunct2, THEN conjunct2, THEN conjunct1]
  note f4 = c [THEN conjunct2, THEN conjunct2, THEN conjunct2, THEN conjunct2, THEN conjunct1]
  note f6 = c [THEN conjunct2, THEN conjunct2, THEN conjunct2, THEN conjunct2, THEN conjunct2,
      THEN conjunct2, THEN mp, OF wf, THEN conjunct2]
  have "(\<lambda>row. if row = demo_order then ord' else row) demo_order \<in>
      (\<lambda>row. if row = demo_order then ord' else row) ` set (orders demo_store)"
    using ord by (rule imageI)
  then have mem: "ord' \<in> set (orders (snd ?res))"
    unfolding rows by simp
  have "''Accepted'' \<in> dom (timestamps_of demo_order)"
    unfolding dom0 by simp
  with f6 have "timestamps_of ord' ''Accepted'' = timestamps_of demo_order ''Accepted''"
    by (rule bspec)
  then have k: "timestamps_of ord' ''Accepted'' = Some ''t1''"
    unfolding old .
  have d: "dom (timestamps_of ord') = {''Out for Delivery'', ''Accepted''}"
    using f4 unfolding dom0 .
  have t: "timestamps_of ord' ''Out for Delivery'' = Some ''t2''"
    using f3 unfolding now .
  have i: "o_id ord' = 7"
    using f1 unfolding id7 .
  from mem i f2 t k d have "ord' \<in> set (orders (snd ?res)) \<and>
      o_id ord' = 7 \<and> o_status ord' = ''Out for Delivery'' \<and>
      timestamps_of ord' ''Out for Delivery'' = Some ''t2'' \<and>
      timestamps_of ord' ''Accepted'' = Some ''t1'' \<and>
      dom (timestamps_of ord') = {''Out for Delivery'', ''Accepted''}"
    by (intro conjI)
  then have "\<exists>ord'. ord' \<in> set (orders (snd ?res)) \<and>
      o_id ord' = 7 \<and> o_status ord' = ''Out for Delivery'' \<and>
      timestamps_of ord' ''Out for Delivery'' = Some ''t2'' \<and>
      timestamps_of ord' ''Accepted'' = Some ''t1'' \<and>
      dom (timestamps_of ord') = {''Out for Delivery'', ''Accepted''}"
    by - (rule exI, assumption)
  with wf show ?thesis by - (rule conjI, assumption+)
qed

text \<open>
  C8. Delivered is terminal: for an order whose status is "Delivered", every update
  by its seller fails with a 400, whatever \<open>new_status\<close> is, and the store is left
  as it was. And after any sequence of update requests every order is still there, with
  at least the timestamp keys it had and a status that is the same or later in the list.
\<close>

theorem delivered_is_terminal:
  assumes h: "h = tracking_update_order_status \<or> h = main_update_order_status"
    and pk: "distinct (map o_id (orders db))"
    and ord: "ord \<in> set (orders db)"
  shows "(o_status ord = ''Delivered'' \<and> role u = Some ''seller'' \<and>
          sub u = Some (o_seller_id ord) \<longrightarrow>
            (\<exists>d. h e db (o_id ord) new_status u = (Inl (HTTPException 400 d), db))) \<and>
         (\<exists>ord' \<in> set (orders (run_updates h db calls)).
            o_id ord' = o_id ord \<and>
            dom (timestamps_of ord) \<subseteq> dom (timestamps_of ord') \<and>
            (o_status ord' = o_status ord \<or>
             (o_status ord \<in> set tracking_ORDER_STATUSES \<and>
              o_status ord' \<in> set tracking_ORDER_STATUSES \<and>
              status_rank (o_status ord) < status_rank (o_status ord'))))"
proof -
  have heq: "h = tracking_update_order_status"
    using h main_update_order_status_eq by auto
  note found = single_filter_distinct [OF pk ord]
  have a: "\<exists>d. tracking_update_order_status e db (o_id ord) new_status u =
             (Inl (HTTPException 400 d), db)"
    if "o_status ord = ''Delivered''" "role u = Some ''seller''" "sub u = Some (o_seller_id ord)"
    using delivered_rejected [OF that(2) found that(3) that(1)] by blast
  show ?thesis
    unfolding heq using a run_updates_le [OF pk ord, of calls]
    by (simp add: order_le_def)
qed

theorem delivered_is_terminal_witness:
  "(\<exists>d. tracking_update_order_status demo_env demo_store 11 ''Delivered'' demo_seller =
           (Inl (HTTPException 400 d), demo_store)) \<and>
   (\<exists>ord' \<in> set (orders (run_updates tracking_update_order_status demo_store demo_calls)).
      o_id ord' = 7 \<and> o_status ord' = ''Out for Delivery'' \<and>
      dom (timestamps_of demo_order) \<subseteq> dom (timestamps_of ord'))"
proof -
  have pk: "distinct (map o_id (orders demo_store))"
    by (simp add: demo_defs)
  have ord: "demo_delivered_order \<in> set (orders demo_store)"
    by (simp add: demo_defs)
  have ord7: "demo_order \<in> set (orders demo_store)"
    by (simp add: demo_defs)
  have f: "o_status demo_delivered_order = ''Delivered''" "role demo_seller = Some ''seller''"
    "sub demo_seller = Some (o_seller_id demo_delivered_order)" "o_id demo_delivered_order = 11"
    by (simp_all add: demo_defs)
  from delivered_is_terminal [OF disjI1 [OF refl] pk ord, where u = demo_seller
      and e = demo_env and new_status = "''Delivered''"] f
  have a: "\<exists>d. tracking_update_order_status demo_env demo_store 11 ''Delivered'' demo_seller =
           (Inl (HTTPException 400 d), demo_store)"
    by auto
  from delivered_is_terminal [OF disjI1 [OF refl] pk ord7, where calls = demo_calls]
  obtain ord' where
    m: "ord' \<in> set (orders (run_updates tracking_update_order_status demo_store demo_calls))"
    and g: "o_id ord' = o_id demo_order" "dom (timestamps_of demo_order) \<subseteq> dom (timestamps_of ord')"
    by blast
  have run: "map (\<lambda>x. (o_id x, o_status x))
      (orders (run_updates tracking_update_order_status demo_store demo_calls)) =
      [(7, ''Out for Delivery''), (9, ''Cancelled''), (11, ''Delivered'')]"
    by (simp add: demo_defs tracking_update_order_status_def single_def
        tracking_ORDER_STATUSES_def update_orders_def)
  have "(o_id ord', o_status ord') \<in> set (map (\<lambda>x. (o_id x, o_status x))
      (orders (run_updates tracking_update_order_status demo_store demo_calls)))"
    using m by (auto simp: image_iff)
  then have st: "o_status ord' = ''Out for Delivery''"
    unfolding run using g(1) by (simp add: demo_order_def)
  have id7: "o_id demo_order = 7"
    by (simp add: demo_order_def)
  show ?thesis
    using a m g st unfolding id7 by blast
qed

section \<open>The two copies of the order handlers\<close>

text \<open>
  C9. The order handlers of main.py and of order_tracking.py are extensionally equal:
  on every input and every store, \<open>get_orders\<close> returns the same result, and
  \<open>update_order_status\<close> returns the same result and leaves the same store; the two
  status lists are the same list.
\<close>

theorem order_handlers_agree:
  "main_get_orders db user_id u = tracking_get_orders db user_id u \<and>
   main_update_order_status e db order_id new_status u =
     tracking_update_order_status e db order_id new_status u \<and>
   main_ORDER_STATUSES = tracking_ORDER_STATUSES"
  by (simp add: main_get_orders_eq main_update_order_status_eq main_ORDER_STATUSES_eq)

section \<open>Listing orders\<close>

text \<open>
  C7. Listing the orders of \<open>user_id\<close>: a caller who is neither \<open>user_id\<close> nor a
  seller gets 403. A buyer asking for their own id gets exactly the orders whose
  \<open>buyer_id\<close> is \<open>user_id\<close>; a seller gets exactly the orders whose \<open>seller_id\<close> is
  \<open>user_id\<close>, for any \<open>user_id\<close>, their own or not; each order comes with its items.
  A caller with any other role gets 403. This holds for both copies of the handler, for
  a caller whose token carries a subject.
\<close>

theorem get_orders_access:
  assumes h: "h = tracking_get_orders \<or> h = main_get_orders"
    and sub: "sub u = Some s"
  shows "(s \<noteq> user_id \<and> role u \<noteq> Some ''seller'' \<longrightarrow>
            h db user_id u = Inl (HTTPException 403 ''Forbidden'')) \<and>
         (s = user_id \<and> role u = Some ''buyer'' \<longrightarrow>
            h db user_id u =
              Inr (map (\<lambda>row. (row, filter (\<lambda>i. i_order_id i = o_id row) (order_items db)))
                     (filter (\<lambda>row. o_buyer_id row = user_id) (orders db)))) \<and>
         (role u = Some ''seller'' \<longrightarrow>
            h db user_id u =
              Inr (map (\<lambda>row. (row, filter (\<lambda>i. i_order_id i = o_id row) (order_items db)))
                     (filter (\<lambda>row. o_seller_id row = user_id) (orders db)))) \<and>
         (s = user_id \<and> role u \<noteq> Some ''buyer'' \<and> role u \<noteq> Some ''seller'' \<longrightarrow>
            h db user_id u = Inl (HTTPException 403 ''Invalid role''))"
proof -
  have heq: "h = tracking_get_orders"
    using h main_get_orders_eq by auto
  show ?thesis
    unfolding heq get_orders_closed_form [OF sub] by simp
qed

theorem get_orders_access_witness:
  "tracking_get_orders demo_store ''alice'' demo_buyer = Inl (HTTPException 403 ''Forbidden'') \<and>
   map (\<lambda>(row, items). (o_id row, map i_id items))
     (projr (tracking_get_orders demo_store ''bob'' demo_buyer)) = [(7, [1, 3]), (9, []), (11, [2])] \<and>
   map (\<lambda>(row, items). (o_id row, map i_id items))
     (projr (tracking_get_orders demo_store ''alice'' demo_other_seller)) =
       [(7, [1, 3]), (9, []), (11, [2])] \<and>
   tracking_get_orders demo_store ''dave'' \<lparr>sub = Some ''dave'', role = Some ''admin''\<rparr> =
     Inl (HTTPException 403 ''Invalid role'')"
proof -
  note th = get_orders_access [OF disjI1 [OF refl], where db = demo_store]
  have b: "sub demo_buyer = Some ''bob''" "role demo_buyer = Some ''buyer''"
    "role demo_buyer \<noteq> Some ''seller''"
    by (simp_all add: demo_buyer_def)
  have c: "sub demo_other_seller = Some ''carol''" "role demo_other_seller = Some ''seller''"
    by (simp_all add: demo_other_seller_def)
  have d: "sub \<lparr>sub = Some ''dave'', role = Some ''admin''\<rparr> = Some ''dave''"
    "role \<lparr>sub = Some ''dave'', role = Some ''admin''\<rparr> \<noteq> Some ''buyer''"
    "role \<lparr>sub = Some ''dave'', role = Some ''admin''\<rparr> \<noteq> Some ''seller''"
    by simp_all
  have w1: "tracking_get_orders demo_store ''alice'' demo_buyer = Inl (HTTPException 403 ''Forbidden'')"
    using th [OF b(1), of "''alice''"] b by simp
  have w2: "tracking_get_orders demo_store ''bob'' demo_buyer =
      Inr (map (\<lambda>row. (row, filter (\<lambda>i. i_order_id i = o_id row) (order_items demo_store)))
             (filter (\<lambda>row. o_buyer_id row = ''bob'') (orders demo_store)))"
    using th [OF b(1), of "''bob''"] b by simp
  have w3: "tracking_get_orders demo_store ''alice'' demo_other_seller =
      Inr (map (\<lambda>row. (row, filter (\<lambda>i. i_order_id i = o_id row) (order_items demo_store)))
             (filter (\<lambda>row. o_seller_id row = ''alice'') (orders demo_store)))"
    using th [OF c(1), of "''alice''"] c by simp
  have w4: "tracking_get_orders demo_store ''dave'' \<lparr>sub = Some ''dave'', role = Some ''admin''\<rparr> =
     Inl (HTTPException 403 ''Invalid role'')"
    using th [OF d(1), of "''dave''"] d(2,3) by simp
  show ?thesis
    unfolding w1 w2 w3 w4
    by (simp add: demo_defs)
qed

section \<open>Sending a message\<close>

text \<open>
  The handler does not turn every failure of the translation call into an untranslated
  message. With differing languages ("en" and "es"), a POST that raises, or a 200 answer
  with an empty list of translations, ends the request with that exception: nothing is
  stored and no success is returned. And for a receiver whose language column is NULL the
  provider is called although the sender's language is the default "en".
\<close>

theorem send_message_failure_not_swallowed:
  "send_message demo_env_unreachable demo_store ''bob'' ''hello'' demo_seller =
     (Inl (RequestException ''connection refused''), demo_store,
      [\<lparr>q = ''hello'', target = Some ''es'', source = Some ''en''\<rparr>]) \<and>
   send_message demo_env_empty demo_store ''bob'' ''hello'' demo_seller =
     (Inl IndexError, demo_store,
      [\<lparr>q = ''hello'', target = Some ''es'', source = Some ''en''\<rparr>]) \<and>
   lang_of (single (filter (\<lambda>p. p_id p = ''alice'') (profiles demo_store))) = Some ''en'' \<and>
   lang_of (single (filter (\<lambda>p. p_id p = ''bob'') (profiles demo_store))) = Some ''es'' \<and>
   snd (snd (send_message demo_env demo_store ''dave'' ''hello'' demo_seller)) =
     [\<lparr>q = ''hello'', target = None, source = Some ''en''\<rparr>]"
  by (simp add: send_message_def translate_text_def translated_text_def lang_of_def single_def
      demo_defs Let_def)

text \<open>
  C4, as the handler has it. For a caller with a subject, a store that accepts the
  insert, and profiles whose language is not NULL (a missing profile counts as "en"):
  if the two languages are equal the provider is not called and the message is stored
  without a translation. If they differ and the provider answers with a status other than
  200, the message is stored without a translation and the call succeeds. If they differ
  and the provider answers 200 with a body that has a first translation, the message is
  stored with its \<open>translatedText\<close>. If they differ and the POST raises, or the 200 answer
  cannot be read down to a \<open>translatedText\<close>, the request fails with that exception and
  nothing is stored. So whenever a message is stored, it has a translation exactly when
  the languages differed and the provider answered 200 with a \<open>translatedText\<close> that is
  not null.
\<close>

theorem send_message_translation:
  assumes sub: "sub u = Some sender"
    and ins: "insert_error e = None"
    and sl: "sl = lang_of (single (filter (\<lambda>p. p_id p = sender) (profiles db)))"
    and rl: "rl = lang_of (single (filter (\<lambda>p. p_id p = receiver_id) (profiles db)))"
    and langs: "sl \<noteq> None" "rl \<noteq> None"
    and req: "req = \<lparr>q = msg, target = rl,
                      source = (if sl \<noteq> None \<and> sl \<noteq> Some [] then sl else None)\<rparr>"
    and new: "new = (\<lambda>tm. \<lparr>m_id = store_id e, m_sender_id = sender,
                m_receiver_id = receiver_id, m_message = msg,
                m_translated_message = tm, m_timestamp = store_now e\<rparr>)"
  shows "(sl = rl \<longrightarrow>
            send_message e db receiver_id msg u =
              (Inr ''Message sent'', db\<lparr>messages := messages db @ [new JNull]\<rparr>, [])) \<and>
         (sl \<noteq> rl \<and> http_post e req = Inr resp \<and> status_code resp \<noteq> 200 \<longrightarrow>
            send_message e db receiver_id msg u =
              (Inr ''Message sent'', db\<lparr>messages := messages db @ [new JNull]\<rparr>, [req])) \<and>
         (sl \<noteq> rl \<and> http_post e req = Inr resp \<and> status_code resp = 200 \<and>
          translated_text resp = Inr v \<longrightarrow>
            send_message e db receiver_id msg u =
              (Inr ''Message sent'', db\<lparr>messages := messages db @ [new v]\<rparr>, [req])) \<and>
         (sl \<noteq> rl \<and> http_post e req = Inl err \<longrightarrow>
            send_message e db receiver_id msg u = (Inl err, db, [req])) \<and>
         (sl \<noteq> rl \<and> http_post e req = Inr resp \<and> status_code resp = 200 \<and>
          translated_text resp = Inl err \<longrightarrow>
            send_message e db receiver_id msg u = (Inl err, db, [req])) \<and>
         (send_message e db receiver_id msg u = (Inr ok, db', calls) \<longrightarrow>
            (\<exists>tm. messages db' = messages db @ [new tm] \<and>
               (tm \<noteq> JNull \<longleftrightarrow>
                  sl \<noteq> rl \<and>
                  (\<exists>r. http_post e req = Inr r \<and> status_code r = 200 \<and>
                       translated_text r = Inr tm \<and> tm \<noteq> JNull))))"
proof (cases "sl = rl")
  case True
  have same: "send_message e db receiver_id msg u =
      (Inr ''Message sent'', db\<lparr>messages := messages db @ [new JNull]\<rparr>, [])"
    unfolding new using send_message_same_lang [OF sub ins] True sl rl by simp
  have "\<exists>tm. messages db' = messages db @ [new tm] \<and>
               (tm \<noteq> JNull \<longleftrightarrow>
                  sl \<noteq> rl \<and>
                  (\<exists>r. http_post e req = Inr r \<and> status_code r = 200 \<and>
                       translated_text r = Inr tm \<and> tm \<noteq> JNull))"
    if "send_message e db receiver_id msg u = (Inr ok, db', calls)"
  proof -
    from that same have "db' = db\<lparr>messages := messages db @ [new JNull]\<rparr>" by simp
    then have "messages db' = messages db @ [new JNull]" by simp
    with True show ?thesis by blast
  qed
  with True same show ?thesis by blast
next
  case False
  note other = send_message_other_lang [OF sub ins sl rl False, of msg]
  note tr = translate_text_cases [OF req, of e]
  have down: "send_message e db receiver_id msg u =
      (Inr ''Message sent'', db\<lparr>messages := messages db @ [new JNull]\<rparr>, [req])"
    if "http_post e req = Inr resp" "status_code resp \<noteq> 200"
    unfolding other tr new using that by simp
  have up: "send_message e db receiver_id msg u =
      (Inr ''Message sent'', db\<lparr>messages := messages db @ [new v]\<rparr>, [req])"
    if "http_post e req = Inr resp" "status_code resp = 200" "translated_text resp = Inr v"
    unfolding other tr new using that by simp
  have raise: "send_message e db receiver_id msg u = (Inl err, db, [req])"
    if "http_post e req = Inl err"
    unfolding other tr using that by simp
  have bad: "send_message e db receiver_id msg u = (Inl err, db, [req])"
    if "http_post e req = Inr resp" "status_code resp = 200" "translated_text resp = Inl err"
    unfolding other tr using that by simp
  have "\<exists>tm. messages db' = messages db @ [new tm] \<and>
               (tm \<noteq> JNull \<longleftrightarrow>
                  sl \<noteq> rl \<and>
                  (\<exists>r. http_post e req = Inr r \<and> status_code r = 200 \<and>
                       translated_text r = Inr tm \<and> tm \<noteq> JNull))"
    if res: "send_message e db receiver_id msg u = (Inr ok, db', calls)"
  proof (cases "http_post e req")
    case (Inl x)
    with res show ?thesis unfolding other tr by simp
  next
    case (Inr r)
    show ?thesis
    proof (cases "status_code r = 200")
      case True
      show ?thesis
      proof (cases "translated_text r")
        case (Inl x)
        with res Inr True show ?thesis unfolding other tr by simp
      next
        case tt: (Inr tm)
        with res Inr True have "db' = db\<lparr>messages := messages db @ [new tm]\<rparr>"
          unfolding other tr new by simp
        then have "messages db' = messages db @ [new tm]" by simp
        with Inr True tt False show ?thesis by auto
      qed
    next
      case F: False
      with res Inr have "db' = db\<lparr>messages := messages db @ [new JNull]\<rparr>"
        unfolding other tr new by simp
      then have "messages db' = messages db @ [new JNull]" by simp
      then show ?thesis by blast
    qed
  qed
  with False down up raise bad show ?thesis by blast
qed

theorem send_message_translation_witness:
  "send_message demo_env demo_store ''carol'' ''hi'' demo_seller =
     (Inr ''Message sent'',
      demo_store\<lparr>messages := messages demo_store @
        [\<lparr>m_id = 3, m_sender_id = ''alice'', m_receiver_id = ''carol'', m_message = ''hi'',
          m_translated_message = JNull, m_timestamp = 30\<rparr>]\<rparr>,
      []) \<and>
   send_message demo_env_down demo_store ''bob'' ''hello'' demo_seller =
     (Inr ''Message sent'',
      demo_store\<lparr>messages := messages demo_store @
        [\<lparr>m_id = 3, m_sender_id = ''alice'', m_receiver_id = ''bob'', m_message = ''hello'',
          m_translated_message = JNull, m_timestamp = 30\<rparr>]\<rparr>,
      [\<lparr>q = ''hello'', target = Some ''es'', source = Some ''en''\<rparr>]) \<and>
   send_message demo_env demo_store ''bob'' ''hello'' demo_seller =
     (Inr ''Message sent'',
      demo_store\<lparr>messages := messages demo_store @
        [\<lparr>m_id = 3, m_sender_id = ''alice'', m_receiver_id = ''bob'', m_message = ''hello'',
          m_translated_message = JStr ''hola'', m_timestamp = 30\<rparr>]\<rparr>,
      [\<lparr>q = ''hello'', target = Some ''es'', source = Some ''en''\<rparr>]) \<and>
   send_message demo_env_unreachable demo_store ''bob'' ''hello'' demo_seller =
     (Inl (RequestException ''connection refused''), demo_store,
      [\<lparr>q = ''hello'', target = Some ''es'', source = Some ''en''\<rparr>])"
proof -
  let ?req = "\<lparr>q = ''hello'', target = Some ''es'', source = Some ''en''\<rparr>"
  have sub: "sub demo_seller = Some ''alice''"
    by (simp add: demo_seller_def)
  have ins: "insert_error demo_env = None" "insert_error demo_env_down = None"
    "insert_error demo_env_unreachable = None"
    by (simp_all add: demo_env_def demo_env_down_def demo_env_unreachable_def)
  have alice: "Some ''en'' = lang_of (single (filter (\<lambda>p. p_id p = ''alice'') (profiles demo_store)))"
    by (simp add: demo_defs lang_of_def single_def)
  have carol: "Some ''en'' = lang_of (single (filter (\<lambda>p. p_id p = ''carol'') (profiles demo_store)))"
    by (simp add: demo_defs lang_of_def single_def)
  have bob: "Some ''es'' = lang_of (single (filter (\<lambda>p. p_id p = ''bob'') (profiles demo_store)))"
    by (simp add: demo_defs lang_of_def single_def)
  have nn: "Some ''en'' \<noteq> None" "Some ''es'' \<noteq> None"
    by simp_all
  have req: "?req = \<lparr>q = ''hello'', target = Some ''es'',
        source = (if Some ''en'' \<noteq> None \<and> Some ''en'' \<noteq> Some [] then Some ''en'' else None)\<rparr>"
    by simp
  have req': "\<lparr>q = ''hi'', target = Some ''en'', source = Some ''en''\<rparr> =
      \<lparr>q = ''hi'', target = Some ''en'',
        source = (if Some ''en'' \<noteq> None \<and> Some ''en'' \<noteq> Some [] then Some ''en'' else None)\<rparr>"
    by simp
  have ids: "store_id demo_env = 3" "store_now demo_env = 30"
    "store_id demo_env_down = 3" "store_now demo_env_down = 30"
    by (simp_all add: demo_env_def demo_env_down_def)
  have down: "http_post demo_env_down ?req = Inr \<lparr>status_code = 503, body = None\<rparr>"
    "status_code \<lparr>status_code = 503, body = None\<rparr> \<noteq> 200"
    by (simp_all add: demo_env_def demo_env_down_def)
  let ?ok = "\<lparr>status_code = 200, body = Some (JObj [(''data'',
       JObj [(''translations'', JArr [JObj [(''translatedText'', JStr ''hola'')]])])])\<rparr>"
  have up: "http_post demo_env ?req = Inr ?ok" "status_code ?ok = 200"
    "translated_text ?ok = Inr (JStr ''hola'')"
    by (simp_all add: demo_env_def translated_text_def)
  have off: "http_post demo_env_unreachable ?req = Inl (RequestException ''connection refused'')"
    by (simp add: demo_env_def demo_env_unreachable_def)
  have w1: "send_message demo_env demo_store ''carol'' ''hi'' demo_seller =
     (Inr ''Message sent'',
      demo_store\<lparr>messages := messages demo_store @
        [\<lparr>m_id = 3, m_sender_id = ''alice'', m_receiver_id = ''carol'', m_message = ''hi'',
          m_translated_message = JNull, m_timestamp = 30\<rparr>]\<rparr>,
      [])"
    using send_message_translation [OF sub ins(1) alice carol nn(1) nn(1) req' refl, THEN conjunct1]
    unfolding ids by simp
  have w2: "send_message demo_env_down demo_store ''bob'' ''hello'' demo_seller =
     (Inr ''Message sent'',
      demo_store\<lparr>messages := messages demo_store @
        [\<lparr>m_id = 3, m_sender_id = ''alice'', m_receiver_id = ''bob'', m_message = ''hello'',
          m_translated_message = JNull, m_timestamp = 30\<rparr>]\<rparr>,
      [?req])"
    using send_message_translation [OF sub ins(2) alice bob nn req refl,
        THEN conjunct2, THEN conjunct1, of "\<lparr>status_code = 503, body = None\<rparr>"] down
    unfolding ids by simp
  have w3: "send_message demo_env demo_store ''bob'' ''hello'' demo_seller =
     (Inr ''Message sent'',
      demo_store\<lparr>messages := messages demo_store @
        [\<lparr>m_id = 3, m_sender_id = ''alice'', m_receiver_id = ''bob'', m_message = ''hello'',
          m_translated_message = JStr ''hola'', m_timestamp = 30\<rparr>]\<rparr>,
      [?req])"
    using send_message_translation [OF sub ins(1) alice bob nn req refl,
        THEN conjunct2, THEN conjunct2, THEN conjunct1, of ?ok "JStr ''hola''"] up
    unfolding ids by simp
  have w4: "send_message demo_env_unreachable demo_store ''bob'' ''hello'' demo_seller =
     (Inl (RequestException ''connection refused''), demo_store, [?req])"
    using send_message_translation [OF sub ins(3) alice bob nn req refl,
        THEN conjunct2, THEN conjunct2, THEN conjunct2, THEN conjunct1,
        of "RequestException ''connection refused''"] off
    by simp
  from w1 w2 w3 w4 show ?thesis by (intro conjI)
qed

section \<open>Listing messages\<close>

text \<open>
  The handler serves a conversation id whose two components are equal: the caller
  "alice" gets the messages of "alice_alice".
\<close>

theorem get_messages_equal_ids_served:
  "get_messages demo_env demo_store ''alice_alice'' demo_seller None None =
     Inr [\<lparr>m_id = 4, m_sender_id = ''alice'', m_receiver_id = ''alice'', m_message = ''note'',
           m_translated_message = JNull, m_timestamp = 5\<rparr>]"
  using or_rows_plain [OF plain_demo(1) plain_demo(1), of demo_messages]
  by (simp add: get_messages_def demo_defs range_rows_def order_by_timestamp_def
      conversation_filter_def)

text \<open>
  C5, as the handler has it. For parameters within their bounds: a conversation id that
  does not split at "_" into exactly two components is rejected with 400; with two
  components, a caller who is neither of them is rejected with 403; a caller who is one of
  them is served, and so is a caller whose id is both components. The handler does not
  ask the two components to be distinct.
\<close>

theorem get_messages_access:
  assumes limit: "limit = (case limit_q of None \<Rightarrow> 50 | Some l \<Rightarrow> l)"
    and offset: "offset = (case offset_q of None \<Rightarrow> 0 | Some k \<Rightarrow> k)"
    and valid: "1 \<le> limit" "limit \<le> 100" "0 \<le> offset"
  shows "(length (split_str CHR ''_'' conversation_id) \<noteq> 2 \<longrightarrow>
            get_messages e db conversation_id u limit_q offset_q =
              Inl (HTTPException 400 ''Invalid conversation_id'')) \<and>
         (split_str CHR ''_'' conversation_id = [a, b] \<and> sub u = Some s \<and> s \<noteq> a \<and> s \<noteq> b \<longrightarrow>
            get_messages e db conversation_id u limit_q offset_q =
              Inl (HTTPException 403 ''Forbidden'')) \<and>
         (split_str CHR ''_'' conversation_id = [a, b] \<and> sub u = Some s \<and> (s = a \<or> s = b) \<and>
          select_error e = None \<longrightarrow>
            (\<exists>rows. get_messages e db conversation_id u limit_q offset_q = Inr rows)) \<and>
         (CHR ''_'' \<notin> set a \<and> sub u = Some a \<and> select_error e = None \<longrightarrow>
            split_str CHR ''_'' (a @ ''_'' @ a) = [a, a] \<and>
            (\<exists>rows. get_messages e db (a @ ''_'' @ a) u limit_q offset_q = Inr rows))"
proof -
  note chk = get_messages_checked [OF limit offset valid]
  have c1: "length (split_str CHR ''_'' conversation_id) \<noteq> 2 \<Longrightarrow>
      get_messages e db conversation_id u limit_q offset_q =
        Inl (HTTPException 400 ''Invalid conversation_id'')"
    unfolding chk by (simp add: Let_def)
  have c2: "split_str CHR ''_'' conversation_id = [a, b] \<Longrightarrow> sub u = Some s \<Longrightarrow>
      s \<noteq> a \<Longrightarrow> s \<noteq> b \<Longrightarrow>
      get_messages e db conversation_id u limit_q offset_q = Inl (HTTPException 403 ''Forbidden'')"
    unfolding chk by (simp add: Let_def)
  have c3: "\<exists>rows. get_messages e db cid u limit_q offset_q = Inr rows"
    if "split_str CHR ''_'' cid = [x, y]" "sub u = Some t" "t = x \<or> t = y"
      "select_error e = None" for cid x y t
    unfolding chk using that by (auto simp: Let_def)
  have c4: "split_str CHR ''_'' (a @ ''_'' @ a) = [a, a]" if "CHR ''_'' \<notin> set a"
    using split_str_two [OF that that] by simp
  have c5: "\<exists>rows. get_messages e db (a @ ''_'' @ a) u limit_q offset_q = Inr rows"
    if "CHR ''_'' \<notin> set a" "sub u = Some a" "select_error e = None"
    using c3 [OF c4 [OF that(1)] that(2) _ that(3)] by simp
  show ?thesis
    using c1 c2 c3 [of conversation_id a b s] c4 c5 by blast
qed

theorem get_messages_access_witness:
  "get_messages demo_env demo_store ''alice'' demo_seller None None =
     Inl (HTTPException 400 ''Invalid conversation_id'') \<and>
   get_messages demo_env demo_store ''bob_carol'' demo_seller None None =
     Inl (HTTPException 403 ''Forbidden'') \<and>
   (\<exists>rows. get_messages demo_env demo_store ''alice_bob'' demo_seller None None = Inr rows) \<and>
   (\<exists>rows. get_messages demo_env demo_store ''alice_alice'' demo_seller None None = Inr rows)"
proof -
  have l: "(50::int) = (case None of None \<Rightarrow> 50 | Some l \<Rightarrow> l)"
    "(0::int) = (case None of None \<Rightarrow> 0 | Some k \<Rightarrow> k)"
    "(1::int) \<le> 50" "(50::int) \<le> 100" "(0::int) \<le> 0"
    by simp_all
  note th = get_messages_access [OF l, where e = demo_env and db = demo_store and u = demo_seller]
  have u: "sub demo_seller = Some ''alice''" "select_error demo_env = None"
    by (simp_all add: demo_seller_def demo_env_def)
  have s1: "length (split_str CHR ''_'' ''alice'') \<noteq> 2"
    by simp
  have s2: "split_str CHR ''_'' ''bob_carol'' = [''bob'', ''carol'']"
    "split_str CHR ''_'' ''alice_bob'' = [''alice'', ''bob'']"
    by simp_all
  have w1: "get_messages demo_env demo_store ''alice'' demo_seller None None =
     Inl (HTTPException 400 ''Invalid conversation_id'')"
    using th [of "''alice''"] s1 by blast
  have w2: "get_messages demo_env demo_store ''bob_carol'' demo_seller None None =
     Inl (HTTPException 403 ''Forbidden'')"
    using th [of "''bob_carol''" "''bob''" "''carol''" "''alice''"] s2(1) u(1) by simp
  have w3: "\<exists>rows. get_messages demo_env demo_store ''alice_bob'' demo_seller None None = Inr rows"
    using th [of "''alice_bob''" "''alice''" "''bob''" "''alice''"] s2(2) u by simp
  have w4: "\<exists>rows. get_messages demo_env demo_store ''alice_alice'' demo_seller None None = Inr rows"
    using th [of "''alice_alice''" "''alice''" "''alice''" "''alice''"] u by simp
  from w1 w2 w3 w4 show ?thesis by (intro conjI)
qed

text \<open>
  C6. The claim asks that an authorised call for conversation "A_B" return only the
  messages between A and B. The handler writes both ids into the filter text as they
  are, so an id can close the condition it stands in and add its own. Here the caller
  "alice" names the second participant \<open>bob),id.gt.0,and(id.gt.0\<close>: the text reads as a
  disjunction that holds \<open>id > 0\<close>, and the answer is every stored message, the one from
  "bob" to "carol" among them. For ids without such characters the handler does what
  the claim says (\<open>get_messages_page\<close>).
\<close>

theorem get_messages_filter_injection:
  "get_messages demo_env demo_store ''alice_bob),id.gt.0,and(id.gt.0'' demo_seller None None =
     Inr [\<lparr>m_id = 4, m_sender_id = ''alice'', m_receiver_id = ''alice'', m_message = ''note'',
           m_translated_message = JNull, m_timestamp = 5\<rparr>,
          \<lparr>m_id = 2, m_sender_id = ''bob'', m_receiver_id = ''alice'', m_message = ''gracias'',
           m_translated_message = JStr ''thanks'', m_timestamp = 10\<rparr>,
          \<lparr>m_id = 3, m_sender_id = ''alice'', m_receiver_id = ''carol'', m_message = ''hi'',
           m_translated_message = JNull, m_timestamp = 15\<rparr>,
          \<lparr>m_id = 1, m_sender_id = ''alice'', m_receiver_id = ''bob'', m_message = ''hello'',
           m_translated_message = JStr ''hola'', m_timestamp = 20\<rparr>,
          \<lparr>m_id = 5, m_sender_id = ''bob'', m_receiver_id = ''carol'', m_message = ''secret'',
           m_translated_message = JNull, m_timestamp = 25\<rparr>]"
  by (simp add: get_messages_def injected_rows demo_defs range_rows_def order_by_timestamp_def)

end
